theory Spec2Isabelle
  imports
    Complex_Main
    "HOL-Library.Monad_Syntax"
    "HOL-Library.AList"
    "HOL-Library.Char_ord"
    "HOL-Library.List_Lexorder"
begin

section \<open>Transaction risk model: data model\<close>

text \<open>
  The development follows \<^verbatim>\<open>transaction_risk_model.py\<close> and the result classes of
  \<^verbatim>\<open>models/schemas.py\<close>.

  Numbers. Python floats and numpy float64 values are modelled by the real numbers:
  sums, quotients, \<open>max\<close>, \<open>min\<close> and comparisons are exact, and \<open>round(x, n)\<close> is
  rounding of \<open>x * 10^n\<close> to the nearest integer, ties to the even one. Binary rounding
  error, overflow, infinities and NaN are outside the model.

  Failure. A computation that has no real-valued result is \<open>None\<close>: a label lookup
  \<^verbatim>\<open>.loc[month, column]\<close> on a table without that label (pandas raises KeyError), and a
  quotient whose denominator is zero (numpy produces inf or nan with a warning; the mean
  of an empty list is such a quotient). Every function that contains such a step returns
  an \<open>option\<close>, and the steps are sequenced in the order of the source.

  Dictionaries are association lists in insertion order; an assignment \<^verbatim>\<open>d[k] = v\<close> is
  \<open>AList.update\<close>, which replaces the value of a present key and appends an absent one.

  Dates are naive timestamps of the years 1000 to 9999, categories are ASCII strings, and
  \<^verbatim>\<open>sort_values\<close> is modelled by a stable sort (every later use of the frame is a sum or a
  grouping, which do not depend on the order of the rows).

  Exceptions. The functions of the pipeline describe the run in which
  \<^verbatim>\<open>pd.to_datetime\<close> (line 81) has succeeded. That call raises OutOfBoundsDatetime on a
  date outside the range of nanosecond timestamps (pandas 2); \<open>analyze_transactions_call\<close>
  is the call of \<^verbatim>\<open>analyze_transactions\<close> with this exception.

  The clock. \<^verbatim>\<open>datetime.utcnow()\<close> is read once per call; its value is the
  parameter \<open>now\<close> of the functions that read it.
\<close>

datatype TransactionType = CREDIT | DEBIT

datatype RiskCategory = RISK_LOW | RISK_MEDIUM | RISK_HIGH

datatype SpendingStability = STABILITY_LOW | STABILITY_MEDIUM | STABILITY_HIGH

record datetime =
  dt_year :: nat
  dt_month :: nat
  dt_day :: nat
  dt_hour :: nat
  dt_minute :: nat
  dt_second :: nat
  dt_microsecond :: nat

record Transaction =
  txn_id :: "string option"
  user_id :: string
  date :: datetime
  description :: string
  amount :: real
  txn_type :: TransactionType
  category :: string
  upi_app :: "string option"

record FinancialSummary =
  monthly_spendings :: "(string \<times> real) list"
  monthly_savings :: "(string \<times> real) list"
  total_savings :: real
  income_volatility :: real
  spending_volatility :: real
  consistency_score :: real
  transaction_frequency :: nat

record BehavioralPatterns =
  essential_spending_ratio :: real
  high_risk_spending_ratio :: real
  weekend_spending_ratio :: real

text \<open>One value of the dictionary \<^verbatim>\<open>income_and_spending_analysis\<close>: the keys
  \<^verbatim>\<open>'income'\<close>, \<^verbatim>\<open>'spending'\<close> and \<^verbatim>\<open>'savings_rate'\<close>.\<close>

record MonthAnalysis =
  income :: real
  spending :: real
  savings_rate :: real

record BehavioralAnalysis =
  spending_pattern_distribution :: "(string \<times> real) list"
  income_and_spending_analysis :: "(string \<times> MonthAnalysis) list"
  spending_stability :: SpendingStability
  behavioral_patterns :: BehavioralPatterns

record RiskAssessmentDetails =
  risk_essential_spending :: real
  high_risk_spending :: real
  weekend_spending :: real
  loan_eligibility_factors :: "string list"

record MLAnalysisResult =
  overall_risk_score :: real
  risk_category :: RiskCategory
  loan_eligibility :: bool
  eligibility_reason :: string
  financial_summary :: FinancialSummary
  behavioral_analysis :: BehavioralAnalysis
  risk_assessment_details :: RiskAssessmentDetails
  created_at :: datetime

text \<open>A row of the data frame built by \<^verbatim>\<open>_transactions_to_dataframe\<close>.\<close>

record Row =
  col_date :: datetime
  col_amount :: real
  col_type :: TransactionType
  col_category :: string
  col_description :: string
  col_upi_app :: "string option"
  col_weekday :: nat
  col_month :: string
  col_is_weekend :: bool

section \<open>Library functions used by the model\<close>

subsection \<open>Strings and dates\<close>

text \<open>\<^verbatim>\<open>str.lower\<close>, on ASCII letters.\<close>

definition lower_char :: "char \<Rightarrow> char" where
  "lower_char c =
     (case map_of (zip ''ABCDEFGHIJKLMNOPQRSTUVWXYZ'' ''abcdefghijklmnopqrstuvwxyz'') c of
        None \<Rightarrow> c
      | Some l \<Rightarrow> l)"

definition lower :: "string \<Rightarrow> string" where
  "lower s = map lower_char s"

definition digit_char :: "nat \<Rightarrow> char" where
  "digit_char n = ''0123456789'' ! (n mod 10)"

text \<open>\<^verbatim>\<open>date.strftime('%Y-%m')\<close>: the year on four digits, the month on two.\<close>

definition strftime_Y_m :: "datetime \<Rightarrow> string" where
  "strftime_Y_m d =
     [digit_char (dt_year d div 1000), digit_char (dt_year d div 100),
      digit_char (dt_year d div 10), digit_char (dt_year d), CHR ''-'',
      digit_char (dt_month d div 10), digit_char (dt_month d)]"

definition is_leap :: "nat \<Rightarrow> bool" where
  "is_leap y = (if y mod 400 = 0 then True else if y mod 100 = 0 then False else y mod 4 = 0)"

definition days_before_year :: "nat \<Rightarrow> nat" where
  "days_before_year y = (let p = y - 1 in p * 365 + p div 4 + p div 400 - p div 100)"

definition days_before_month :: "nat \<Rightarrow> nat \<Rightarrow> nat" where
  "days_before_month y m =
     (if m < 13 then [0, 0, 31, 59, 90, 120, 151, 181, 212, 243, 273, 304, 334] ! m else 0)
     + (if 2 < m \<and> is_leap y then 1 else 0)"

definition toordinal :: "datetime \<Rightarrow> nat" where
  "toordinal d = days_before_year (dt_year d) + days_before_month (dt_year d) (dt_month d) + dt_day d"

text \<open>\<^verbatim>\<open>date.weekday()\<close>: Monday is 0, Sunday is 6.\<close>

definition weekday :: "datetime \<Rightarrow> nat" where
  "weekday d = (toordinal d + 6) mod 7"

text \<open>The position of a timestamp on the time line, in microseconds: the sort key of
  \<^verbatim>\<open>sort_values('date')\<close>.\<close>

definition datetime_key :: "datetime \<Rightarrow> nat" where
  "datetime_key d =
     (((toordinal d * 24 + dt_hour d) * 60 + dt_minute d) * 60 + dt_second d) * 1000000
     + dt_microsecond d"

text \<open>\<^verbatim>\<open>sep.join(parts)\<close>.\<close>

fun join :: "string \<Rightarrow> string list \<Rightarrow> string" where
  "join sep [] = []"
| "join sep [x] = x"
| "join sep (x # y # ys) = x @ sep @ join sep (y # ys)"

subsection \<open>Numbers\<close>

definition round_half_even :: "real \<Rightarrow> int" where
  "round_half_even x =
     (let f = \<lfloor>x\<rfloor>; d = x - of_int f in
      if d < 1 / 2 then f
      else if 1 / 2 < d then f + 1
      else if even f then f else f + 1)"

text \<open>\<^verbatim>\<open>round(x, n)\<close>.\<close>

definition py_round :: "real \<Rightarrow> nat \<Rightarrow> real" where
  "py_round x n = of_int (round_half_even (x * 10 ^ n)) / 10 ^ n"

text \<open>The constant \<^verbatim>\<open>1e-6\<close>.\<close>

definition eps :: real where
  "eps = 1 / 1000000"

text \<open>A quotient of two computed numbers; no result on a zero denominator.\<close>

definition np_div :: "real \<Rightarrow> real \<Rightarrow> real option" where
  "np_div a b = (if b = 0 then None else Some (a / b))"

definition np_mean :: "real list \<Rightarrow> real option" where
  "np_mean xs = np_div (sum_list xs) (real (length xs))"

text \<open>\<^verbatim>\<open>np.std\<close>: the population standard deviation.\<close>

definition np_std :: "real list \<Rightarrow> real option" where
  "np_std xs = do {
     m \<leftarrow> np_mean xs;
     v \<leftarrow> np_mean (map (\<lambda>x. (x - m)\<^sup>2) xs);
     Some (sqrt v)
   }"

section \<open>The data frame\<close>

text \<open>The attributes set by \<^verbatim>\<open>__init__\<close>.\<close>

definition high_risk_categories :: "string set" where
  "high_risk_categories =
     {''gambling'', ''casino'', ''betting'', ''alcohol'', ''tobacco'', ''luxury'',
      ''entertainment'', ''gaming'', ''nightlife'', ''party''}"

definition essential_categories :: "string set" where
  "essential_categories =
     {''groceries'', ''utilities'', ''rent'', ''mortgage'', ''insurance'', ''healthcare'',
      ''medicine'', ''fuel'', ''transport'', ''education'', ''bills''}"

definition weekend_days :: "nat list" where
  "weekend_days = [5, 6]"

definition to_row :: "Transaction \<Rightarrow> Row" where
  "to_row transaction =
     \<lparr>col_date = date transaction,
      col_amount = amount transaction,
      col_type = txn_type transaction,
      col_category = lower (category transaction),
      col_description = description transaction,
      col_upi_app = upi_app transaction,
      col_weekday = weekday (date transaction),
      col_month = strftime_Y_m (date transaction),
      col_is_weekend = (weekday (date transaction) \<in> set weekend_days)\<rparr>"

text \<open>\<^verbatim>\<open>_transactions_to_dataframe\<close>: one row per transaction, sorted by date.\<close>

definition transactions_to_dataframe :: "Transaction list \<Rightarrow> Row list" where
  "transactions_to_dataframe transactions =
     sort_key (\<lambda>r. datetime_key (col_date r)) (map to_row transactions)"

text \<open>\<^verbatim>\<open>rows.groupby(key)['amount'].sum()\<close>: the group keys in ascending order, each with
  the sum of the amounts of its rows.\<close>

definition groupby_sum :: "(Row \<Rightarrow> string) \<Rightarrow> Row list \<Rightarrow> (string \<times> real) list" where
  "groupby_sum key rows =
     map (\<lambda>k. (k, sum_list (map col_amount (filter (\<lambda>r. key r = k) rows))))
       (sort (remdups (map key rows)))"

text \<open>\<^verbatim>\<open>df.groupby(['month', 'type'])['amount'].sum().unstack(fill_value=0)\<close>: a table
  with one line per month of the data and one column per transaction type of the data;
  a cell holds the sum of the amounts of that month and type, 0 where there is no such
  row.\<close>

record MonthlyTable =
  tbl_index :: "string list"
  tbl_columns :: "TransactionType list"
  tbl_value :: "string \<Rightarrow> TransactionType \<Rightarrow> real"

definition groupby_month_type :: "Row list \<Rightarrow> MonthlyTable" where
  "groupby_month_type df =
     \<lparr>tbl_index = sort (remdups (map col_month df)),
      tbl_columns = filter (\<lambda>t. t \<in> set (map col_type df)) [CREDIT, DEBIT],
      tbl_value = (\<lambda>m t. sum_list (map col_amount
                     (filter (\<lambda>r. col_month r = m \<and> col_type r = t) df)))\<rparr>"

text \<open>\<^verbatim>\<open>table.loc[month, column]\<close>.\<close>

definition loc :: "MonthlyTable \<Rightarrow> string \<Rightarrow> TransactionType \<Rightarrow> real option" where
  "loc table month column =
     (if month \<in> set (tbl_index table) \<and> column \<in> set (tbl_columns table)
      then Some (tbl_value table month column) else None)"

text \<open>\<^verbatim>\<open>table.loc[month, column] if column in table.columns else 0\<close>.\<close>

definition loc_or_zero :: "MonthlyTable \<Rightarrow> string \<Rightarrow> TransactionType \<Rightarrow> real option" where
  "loc_or_zero table month column =
     (if column \<in> set (tbl_columns table) then loc table month column else Some 0)"

section \<open>The pipeline\<close>

subsection \<open>\<^verbatim>\<open>_calculate_financial_summary\<close>\<close>

text \<open>The loop over the months, filling the two dictionaries.\<close>

fun summary_loop ::
  "MonthlyTable \<Rightarrow> string list \<Rightarrow> (string \<times> real) list \<Rightarrow> (string \<times> real) list \<Rightarrow>
   ((string \<times> real) list \<times> (string \<times> real) list) option" where
  "summary_loop monthly_data [] spendings savings = Some (spendings, savings)"
| "summary_loop monthly_data (month # months) spendings savings = do {
     spending \<leftarrow> loc_or_zero monthly_data month DEBIT;
     income \<leftarrow> loc_or_zero monthly_data month CREDIT;
     summary_loop monthly_data months
       (AList.update month spending spendings)
       (AList.update month (max 0 (income - spending)) savings)
   }"

definition calculate_financial_summary :: "Row list \<Rightarrow> FinancialSummary option" where
  "calculate_financial_summary df = do {
     let monthly_data = groupby_month_type df;
     (monthly_spendings, monthly_savings) \<leftarrow>
       summary_loop monthly_data (tbl_index monthly_data) [] [];
     let spending_values = map snd monthly_spendings;
     income_values \<leftarrow>
       those (map (\<lambda>month. loc_or_zero monthly_data month CREDIT) (tbl_index monthly_data));
     income_std \<leftarrow> np_std income_values;
     income_mean \<leftarrow> np_mean income_values;
     income_volatility \<leftarrow> np_div income_std (income_mean + eps);
     spending_std \<leftarrow> np_std spending_values;
     spending_mean \<leftarrow> np_mean spending_values;
     spending_volatility \<leftarrow> np_div spending_std (spending_mean + eps);
     let consistency_score = max 0 (1 - (income_volatility + spending_volatility) / 2);
     Some \<lparr>monthly_spendings = monthly_spendings,
           monthly_savings = monthly_savings,
           total_savings = sum_list (map snd monthly_savings),
           income_volatility = py_round income_volatility 3,
           spending_volatility = py_round spending_volatility 3,
           consistency_score = py_round consistency_score 3,
           transaction_frequency = length df\<rparr>
   }"

subsection \<open>\<^verbatim>\<open>_determine_spending_stability\<close>\<close>

definition determine_spending_stability :: "Row list \<Rightarrow> SpendingStability option" where
  "determine_spending_stability df = do {
     let monthly_spending = map snd (groupby_sum col_month (filter (\<lambda>r. col_type r = DEBIT) df));
     if length monthly_spending < 2 then Some STABILITY_MEDIUM
     else do {
       s \<leftarrow> np_std monthly_spending;
       m \<leftarrow> np_mean monthly_spending;
       cv \<leftarrow> np_div s (m + eps);
       Some (if cv < 0.2 then STABILITY_HIGH
             else if cv < 0.4 then STABILITY_MEDIUM
             else STABILITY_LOW)
     }
   }"

subsection \<open>\<^verbatim>\<open>_calculate_behavioral_analysis\<close>\<close>

text \<open>The dictionary comprehension over the items of \<^verbatim>\<open>spending_by_category\<close>.\<close>

fun distribution_loop ::
  "real \<Rightarrow> (string \<times> real) list \<Rightarrow> (string \<times> real) list \<Rightarrow> (string \<times> real) list option" where
  "distribution_loop total_spending [] distribution = Some distribution"
| "distribution_loop total_spending (item # items) distribution = do {
     fraction \<leftarrow> np_div (snd item) total_spending;
     distribution_loop total_spending items
       (AList.update (fst item) (py_round fraction 3) distribution)
   }"

text \<open>The loop over the months, filling \<^verbatim>\<open>income_spending_analysis\<close>.\<close>

fun analysis_loop ::
  "MonthlyTable \<Rightarrow> string list \<Rightarrow> (string \<times> MonthAnalysis) list \<Rightarrow>
   (string \<times> MonthAnalysis) list option" where
  "analysis_loop monthly_analysis [] analysis = Some analysis"
| "analysis_loop monthly_analysis (month # months) analysis = do {
     inc \<leftarrow> loc_or_zero monthly_analysis month CREDIT;
     spend \<leftarrow> loc_or_zero monthly_analysis month DEBIT;
     rate \<leftarrow> np_div (inc - spend) (inc + eps);
     analysis_loop monthly_analysis months
       (AList.update month \<lparr>income = inc, spending = spend, savings_rate = rate\<rparr> analysis)
   }"

definition calculate_behavioral_analysis :: "Row list \<Rightarrow> BehavioralAnalysis option" where
  "calculate_behavioral_analysis df = do {
     let spending_by_category = groupby_sum col_category (filter (\<lambda>r. col_type r = DEBIT) df);
     let total_spending = sum_list (map snd spending_by_category);
     spending_pattern_distribution \<leftarrow>
       (if 0 < total_spending then distribution_loop total_spending spending_by_category []
        else Some []);
     let monthly_analysis = groupby_month_type df;
     income_spending_analysis \<leftarrow>
       analysis_loop monthly_analysis (tbl_index monthly_analysis) [];
     let debit_transactions = filter (\<lambda>r. col_type r = DEBIT) df;
     let total_debit_amount = sum_list (map col_amount debit_transactions);
     (essential_ratio, high_risk_ratio, weekend_ratio) \<leftarrow>
       (if 0 < total_debit_amount then do {
          let essential_spending = sum_list (map col_amount
                (filter (\<lambda>r. col_category r \<in> essential_categories) debit_transactions));
          essential_ratio \<leftarrow> np_div essential_spending total_debit_amount;
          let high_risk_spending = sum_list (map col_amount
                (filter (\<lambda>r. col_category r \<in> high_risk_categories) debit_transactions));
          high_risk_ratio \<leftarrow> np_div high_risk_spending total_debit_amount;
          let weekend_spending = sum_list (map col_amount
                (filter col_is_weekend debit_transactions));
          weekend_ratio \<leftarrow> np_div weekend_spending total_debit_amount;
          Some (essential_ratio, high_risk_ratio, weekend_ratio)
        }
        else Some (0, 0, 0));
     let behavioral_patterns =
       \<lparr>essential_spending_ratio = py_round essential_ratio 3,
        high_risk_spending_ratio = py_round high_risk_ratio 3,
        weekend_spending_ratio = py_round weekend_ratio 3\<rparr>;
     spending_stability \<leftarrow> determine_spending_stability df;
     Some \<lparr>spending_pattern_distribution = spending_pattern_distribution,
           income_and_spending_analysis = income_spending_analysis,
           spending_stability = spending_stability,
           behavioral_patterns = behavioral_patterns\<rparr>
   }"

subsection \<open>\<^verbatim>\<open>_calculate_risk_assessment\<close>\<close>

definition calculate_risk_assessment ::
  "Row list \<Rightarrow> BehavioralAnalysis \<Rightarrow> RiskAssessmentDetails option" where
  "calculate_risk_assessment df ba = do {
     let patterns = behavioral_patterns ba;
     let risk_essential = max 0 (50 - essential_spending_ratio patterns * 50);
     let high_risk = high_risk_spending_ratio patterns * 100;
     let weekend = min (weekend_spending_ratio patterns * 100) 50;
     let eligibility_factors =
       (if 0.5 < essential_spending_ratio patterns
        then [''High essential spending ratio''] else []);
     let eligibility_factors = eligibility_factors @
       (if high_risk_spending_ratio patterns < 0.15
        then [''Low discretionary spending''] else []);
     let eligibility_factors = eligibility_factors @
       (if spending_stability ba \<in> set [STABILITY_HIGH, STABILITY_MEDIUM]
        then [''Stable spending pattern''] else []);
     let monthly_incomes =
       map (\<lambda>item. income (snd item)) (income_and_spending_analysis ba);
     stable_income \<leftarrow>
       (if 1 < length monthly_incomes then do {
          s \<leftarrow> np_std monthly_incomes;
          m \<leftarrow> np_mean monthly_incomes;
          cv \<leftarrow> np_div s (m + eps);
          Some (cv < 0.3)
        }
        else Some False);
     let eligibility_factors = eligibility_factors @
       (if stable_income then [''Stable income''] else []);
     let eligibility_factors =
       (if eligibility_factors = [] then [''Standard risk profile''] else eligibility_factors);
     Some \<lparr>risk_essential_spending = py_round risk_essential 1,
           high_risk_spending = py_round high_risk 1,
           weekend_spending = py_round weekend 1,
           loan_eligibility_factors = eligibility_factors\<rparr>
   }"

subsection \<open>\<^verbatim>\<open>_calculate_overall_risk_score\<close>\<close>

definition calculate_overall_risk_score ::
  "FinancialSummary \<Rightarrow> BehavioralAnalysis \<Rightarrow> RiskAssessmentDetails \<Rightarrow> real option" where
  "calculate_overall_risk_score fs ba risk_assessment = do {
     let volatility_score = (income_volatility fs + spending_volatility fs) * 50;
     let consistency_bonus = (1 - consistency_score fs) * 20;
     let patterns = behavioral_patterns ba;
     let behavioral_risk =
       high_risk_spending_ratio patterns * 30
       + max 0 (weekend_spending_ratio patterns - 0.2) * 20;
     let essential_bonus = max 0 ((0.6 - essential_spending_ratio patterns) * 15);
     avg_savings_rate \<leftarrow>
       np_mean (map (\<lambda>item. savings_rate (snd item))
                  (income_and_spending_analysis ba));
     let savings_risk = max 0 ((0.1 - avg_savings_rate) * 25);
     let freq_risk =
       (if transaction_frequency fs < 20 then 10
        else if 300 < transaction_frequency fs then 5
        else 0);
     let total_risk =
       volatility_score + consistency_bonus + behavioral_risk
       + essential_bonus + savings_risk + freq_risk;
     Some (min 100 (max 0 total_risk))
   }"

subsection \<open>\<^verbatim>\<open>_determine_risk_category\<close> and \<^verbatim>\<open>_determine_loan_eligibility\<close>\<close>

definition determine_risk_category :: "real \<Rightarrow> RiskCategory" where
  "determine_risk_category risk_score =
     (if risk_score < 40 then RISK_LOW
      else if risk_score < 70 then RISK_MEDIUM
      else RISK_HIGH)"

definition determine_loan_eligibility ::
  "real \<Rightarrow> FinancialSummary \<Rightarrow> BehavioralAnalysis \<Rightarrow> (bool \<times> string) option" where
  "determine_loan_eligibility risk_score fs ba =
     (if 75 < risk_score
      then Some (False, ''High risk profile with significant financial volatility'')
      else let patterns = behavioral_patterns ba in
      if essential_spending_ratio patterns < 0.3
      then Some (False, ''Insufficient essential spending pattern indicating unstable lifestyle'')
      else if 0.25 < high_risk_spending_ratio patterns
      then Some (False, ''Excessive high-risk spending indicating poor financial discipline'')
      else do {
        avg_savings_rate \<leftarrow>
          np_mean (map (\<lambda>item. savings_rate (snd item))
                     (income_and_spending_analysis ba));
        if avg_savings_rate < - 0.1
        then Some (False, ''Negative savings rate indicating financial stress'')
        else if consistency_score fs < 0.3
        then Some (False, ''Highly inconsistent financial behavior'')
        else do {
          let reasons =
            (if 0.5 < essential_spending_ratio patterns
             then [''stable essential spending''] else [])
            @ (if high_risk_spending_ratio patterns < 0.15
               then [''controlled discretionary spending''] else [])
            @ (if 0.7 < consistency_score fs
               then [''consistent financial behavior''] else [])
            @ (if 0.05 < avg_savings_rate
               then [''positive savings rate''] else []);
          let reasons = (if reasons = [] then [''acceptable risk profile''] else reasons);
          Some (True, ''Eligible based on '' @ join '', '' reasons)
        }
      })"

subsection \<open>\<^verbatim>\<open>_generate_empty_result\<close> and \<^verbatim>\<open>analyze_transactions\<close>\<close>

definition generate_empty_result :: "datetime \<Rightarrow> MLAnalysisResult" where
  "generate_empty_result now =
     \<lparr>overall_risk_score = 50,
      risk_category = RISK_MEDIUM,
      loan_eligibility = False,
      eligibility_reason = ''Insufficient transaction history for assessment'',
      financial_summary =
        \<lparr>monthly_spendings = [],
         monthly_savings = [],
         total_savings = 0,
         income_volatility = 0,
         spending_volatility = 0,
         consistency_score = 0,
         transaction_frequency = 0\<rparr>,
      behavioral_analysis =
        \<lparr>spending_pattern_distribution = [],
         income_and_spending_analysis = [],
         spending_stability = STABILITY_MEDIUM,
         behavioral_patterns =
           \<lparr>essential_spending_ratio = 0,
            high_risk_spending_ratio = 0,
            weekend_spending_ratio = 0\<rparr>\<rparr>,
      risk_assessment_details =
        \<lparr>risk_essential_spending = 50,
         high_risk_spending = 0,
         weekend_spending = 0,
         loan_eligibility_factors = [''Insufficient data'']\<rparr>,
      created_at = now\<rparr>"

definition analyze_transactions :: "datetime \<Rightarrow> Transaction list \<Rightarrow> MLAnalysisResult option" where
  "analyze_transactions now transactions =
     (if transactions = [] then Some (generate_empty_result now)
      else do {
        let df = transactions_to_dataframe transactions;
        fs \<leftarrow> calculate_financial_summary df;
        ba \<leftarrow> calculate_behavioral_analysis df;
        risk_assessment \<leftarrow> calculate_risk_assessment df ba;
        risk_score \<leftarrow> calculate_overall_risk_score fs ba risk_assessment;
        let category = determine_risk_category risk_score;
        (eligibility, reason) \<leftarrow> determine_loan_eligibility risk_score fs ba;
        Some \<lparr>overall_risk_score = py_round risk_score 1,
              risk_category = category,
              loan_eligibility = eligibility,
              eligibility_reason = reason,
              financial_summary = fs,
              behavioral_analysis = ba,
              risk_assessment_details = risk_assessment,
              created_at = now\<rparr>
      })"

subsection \<open>The call of \<^verbatim>\<open>analyze_transactions\<close> and the exception of \<^verbatim>\<open>pd.to_datetime\<close>\<close>








section \<open>Quantities named by the specification\<close>

text \<open>
  The definitions of this section are not translations of source functions. They state,
  over the list of transactions itself, the quantities in which the specification
  describes the results; the theorems below compare the pipeline with them.
\<close>

text \<open>Mean, population standard deviation and the epsilon-guarded coefficient of
  variation (the glossary's volatility) of a series.\<close>

definition mean_value :: "real list \<Rightarrow> real" where
  "mean_value xs = sum_list xs / real (length xs)"

definition std_value :: "real list \<Rightarrow> real" where
  "std_value xs = sqrt (mean_value (map (\<lambda>x. (x - mean_value xs)\<^sup>2) xs))"

definition cv_value :: "real list \<Rightarrow> real" where
  "cv_value xs = std_value xs / (mean_value xs + eps)"

text \<open>The data model of the specification: amounts are non-negative.\<close>

definition nonneg_amounts :: "Transaction list \<Rightarrow> bool" where
  "nonneg_amounts transactions = list_all (\<lambda>t. 0 \<le> amount t) transactions"

text \<open>The derived fields of a normalized row.\<close>

definition month_bucket :: "Transaction \<Rightarrow> string" where
  "month_bucket t = strftime_Y_m (date t)"

definition category_normalized :: "Transaction \<Rightarrow> string" where
  "category_normalized t = lower (category t)"

definition is_weekend :: "Transaction \<Rightarrow> bool" where
  "is_weekend t = (weekday (date t) = 5 \<or> weekday (date t) = 6)"

definition is_debit :: "Transaction \<Rightarrow> bool" where
  "is_debit t = (txn_type t = DEBIT)"

definition is_credit :: "Transaction \<Rightarrow> bool" where
  "is_credit t = (txn_type t = CREDIT)"

text \<open>The months present in the data, and the income and the spending of a month.\<close>

definition spec_months :: "Transaction list \<Rightarrow> string list" where
  "spec_months transactions = sort (remdups (map month_bucket transactions))"

definition spec_income :: "Transaction list \<Rightarrow> string \<Rightarrow> real" where
  "spec_income transactions m =
     sum_list (map amount (filter (\<lambda>t. month_bucket t = m \<and> is_credit t) transactions))"

definition spec_spending :: "Transaction list \<Rightarrow> string \<Rightarrow> real" where
  "spec_spending transactions m =
     sum_list (map amount (filter (\<lambda>t. month_bucket t = m \<and> is_debit t) transactions))"

definition spec_monthly_incomes :: "Transaction list \<Rightarrow> real list" where
  "spec_monthly_incomes transactions = map (spec_income transactions) (spec_months transactions)"

text \<open>The debit sums of the behavioral ratios and of the category distribution.\<close>

definition spec_total_debit :: "Transaction list \<Rightarrow> real" where
  "spec_total_debit transactions = sum_list (map amount (filter is_debit transactions))"

definition spec_essential_debit :: "Transaction list \<Rightarrow> real" where
  "spec_essential_debit transactions =
     sum_list (map amount
       (filter (\<lambda>t. is_debit t \<and> category_normalized t \<in> essential_categories) transactions))"

definition spec_high_risk_debit :: "Transaction list \<Rightarrow> real" where
  "spec_high_risk_debit transactions =
     sum_list (map amount
       (filter (\<lambda>t. is_debit t \<and> category_normalized t \<in> high_risk_categories) transactions))"

definition spec_weekend_debit :: "Transaction list \<Rightarrow> real" where
  "spec_weekend_debit transactions =
     sum_list (map amount (filter (\<lambda>t. is_debit t \<and> is_weekend t) transactions))"

definition spec_category_debit :: "Transaction list \<Rightarrow> string \<Rightarrow> real" where
  "spec_category_debit transactions c =
     sum_list (map amount
       (filter (\<lambda>t. is_debit t \<and> category_normalized t = c) transactions))"

definition spec_debit_categories :: "Transaction list \<Rightarrow> string list" where
  "spec_debit_categories transactions =
     sort (remdups (map category_normalized (filter is_debit transactions)))"

text \<open>The rejection rules of the loan-eligibility decision, in the order of the
  specification, and the reason of the first rule that matches.\<close>

definition spec_rejection_rules ::
  "real \<Rightarrow> real \<Rightarrow> real \<Rightarrow> real \<Rightarrow> real \<Rightarrow> (bool \<times> string) list" where
  "spec_rejection_rules overall essential_ratio high_risk_ratio avg_savings_rate consistency =
     [(75 < overall, ''High risk profile with significant financial volatility''),
      (essential_ratio < 0.3,
       ''Insufficient essential spending pattern indicating unstable lifestyle''),
      (0.25 < high_risk_ratio,
       ''Excessive high-risk spending indicating poor financial discipline''),
      (avg_savings_rate < - 0.1, ''Negative savings rate indicating financial stress''),
      (consistency < 0.3, ''Highly inconsistent financial behavior'')]"

definition spec_first_match :: "(bool \<times> string) list \<Rightarrow> string option" where
  "spec_first_match rules = map_option snd (find fst rules)"

text \<open>The months with debit activity, and the stability class of the series of their debit
  totals.\<close>

definition spec_debit_months :: "Transaction list \<Rightarrow> string list" where
  "spec_debit_months transactions =
     sort (remdups (map month_bucket (filter is_debit transactions)))"

definition spec_stability_of :: "real list \<Rightarrow> SpendingStability" where
  "spec_stability_of monthly_debit_totals =
     (if length monthly_debit_totals < 2 then STABILITY_MEDIUM
      else if cv_value monthly_debit_totals < 0.2 then STABILITY_HIGH
      else if cv_value monthly_debit_totals < 0.4 then STABILITY_MEDIUM
      else STABILITY_LOW)"

definition spec_stability :: "Transaction list \<Rightarrow> SpendingStability" where
  "spec_stability transactions =
     spec_stability_of (map (spec_spending transactions) (spec_debit_months transactions))"

section \<open>Example inputs\<close>

definition example_now :: datetime where
  "example_now = \<lparr>dt_year = 2024, dt_month = 3, dt_day = 1, dt_hour = 12, dt_minute = 0,
     dt_second = 0, dt_microsecond = 0\<rparr>"

text \<open>Saturday 6 January, Monday 8 January, Tuesday 9 January and Monday 5 February 2024.\<close>

definition example_saturday :: datetime where
  "example_saturday = \<lparr>dt_year = 2024, dt_month = 1, dt_day = 6, dt_hour = 0, dt_minute = 0,
     dt_second = 0, dt_microsecond = 0\<rparr>"

definition example_monday :: datetime where
  "example_monday = \<lparr>dt_year = 2024, dt_month = 1, dt_day = 8, dt_hour = 10, dt_minute = 0,
     dt_second = 0, dt_microsecond = 0\<rparr>"

definition example_tuesday :: datetime where
  "example_tuesday = \<lparr>dt_year = 2024, dt_month = 1, dt_day = 9, dt_hour = 10, dt_minute = 0,
     dt_second = 0, dt_microsecond = 0\<rparr>"

definition example_february :: datetime where
  "example_february = \<lparr>dt_year = 2024, dt_month = 2, dt_day = 5, dt_hour = 10, dt_minute = 0,
     dt_second = 0, dt_microsecond = 0\<rparr>"

definition example_txn :: "datetime \<Rightarrow> real \<Rightarrow> TransactionType \<Rightarrow> string \<Rightarrow> Transaction" where
  "example_txn d a t c =
     \<lparr>txn_id = None, user_id = ''u1'', date = d, description = ''payment'',
      amount = a, txn_type = t, category = c, upi_app = None\<rparr>"

text \<open>One debit of 100 in the category Gambling, on a Saturday.\<close>

definition example_gambling :: "Transaction list" where
  "example_gambling = [example_txn example_saturday 100 DEBIT ''Gambling'']"

text \<open>Two debits, one third of the amount in an essential category.\<close>

definition example_thirds :: "Transaction list" where
  "example_thirds =
     [example_txn example_monday 1 DEBIT ''Groceries'',
      example_txn example_tuesday 2 DEBIT ''Shopping'']"

text \<open>A month in which the debits exceed the credits.\<close>

definition example_overspend :: "Transaction list" where
  "example_overspend =
     [example_txn example_monday 50 CREDIT ''Salary'',
      example_txn example_tuesday 100 DEBIT ''Rent'']"

text \<open>Credits only, in two months.\<close>

definition example_two_months :: "Transaction list" where
  "example_two_months =
     [example_txn example_monday 3 CREDIT ''Salary'',
      example_txn example_february 5 CREDIT ''Salary'']"

text \<open>Two months of high-risk debits and of credits, both series with a coefficient of
  variation near one half.\<close>

definition example_fallback :: "Transaction list" where
  "example_fallback =
     [example_txn example_monday 1 DEBIT ''Gambling'',
      example_txn example_tuesday 1 CREDIT ''Salary'',
      example_txn example_february 3 DEBIT ''Gambling'',
      example_txn example_february 3 CREDIT ''Salary'']"

text \<open>Six transactions in two months whose score before rounding is 75.01.\<close>

definition example_threshold :: "Transaction list" where
  "example_threshold =
     [example_txn example_monday 10000 CREDIT ''Salary'',
      example_txn example_monday 1000 DEBIT ''Groceries'',
      example_txn example_february 30000 CREDIT ''Salary'',
      example_txn example_february 200 DEBIT ''Groceries'',
      example_txn example_february 68 DEBIT ''Gambling'',
      example_txn example_february 2732 DEBIT ''Shopping'']"



section \<open>Auxiliary lemmas\<close>

subsection \<open>Rounding, means and sums\<close>

lemma round_half_even_err: "\<bar>of_int (round_half_even x) - x\<bar> \<le> 1 / 2"
proof -
  have "of_int \<lfloor>x\<rfloor> \<le> x" "x < of_int \<lfloor>x\<rfloor> + 1" by linarith+
  then show ?thesis unfolding round_half_even_def Let_def by auto
qed

lemma round_half_even_ge: "of_int k \<le> x \<Longrightarrow> k \<le> round_half_even x"
proof -
  assume "of_int k \<le> x"
  then have "k \<le> \<lfloor>x\<rfloor>" by (simp add: le_floor_iff)
  then show ?thesis unfolding round_half_even_def Let_def by auto
qed

lemma round_half_even_le: "x \<le> of_int k \<Longrightarrow> round_half_even x \<le> k"
proof -
  assume h: "x \<le> of_int k"
  have f: "\<lfloor>x\<rfloor> \<le> k" using floor_mono [OF h] by simp
  show ?thesis
  proof (cases "\<lfloor>x\<rfloor> = k")
    case True
    then have "x = of_int k" using h by linarith
    then show ?thesis by (simp add: round_half_even_def)
  next
    case False
    then have "\<lfloor>x\<rfloor> + 1 \<le> k" using f by simp
    then show ?thesis unfolding round_half_even_def Let_def by auto
  qed
qed

lemma py_round_ge: "of_int a \<le> x * 10 ^ n \<Longrightarrow> of_int a / 10 ^ n \<le> py_round x n"
  unfolding py_round_def by (simp add: divide_right_mono round_half_even_ge)

lemma py_round_le: "x * 10 ^ n \<le> of_int b \<Longrightarrow> py_round x n \<le> of_int b / 10 ^ n"
  unfolding py_round_def by (simp add: divide_right_mono round_half_even_le)

lemma py_round_nonneg: "0 \<le> x \<Longrightarrow> 0 \<le> py_round x n"
  using py_round_ge [of 0 x n] by simp

lemma py_round_le_1: "x \<le> 1 \<Longrightarrow> py_round x n \<le> 1"
  using py_round_le [of x n "10 ^ n"] by simp

lemma py_round_1_le_100: "x \<le> 100 \<Longrightarrow> py_round x 1 \<le> 100"
  using py_round_le [of x 1 1000] by simp

lemma py_round_1_le_50: "x \<le> 50 \<Longrightarrow> py_round x 1 \<le> 50"
  using py_round_le [of x 1 500] by simp

lemma py_round_0: "py_round 0 n = 0"
  by (simp add: py_round_def round_half_even_def)

lemma py_round_3_err: "\<bar>py_round x 3 - x\<bar> \<le> 1 / 2000"
proof -
  have "\<bar>of_int (round_half_even (x * 1000)) - x * 1000\<bar> \<le> 1 / 2"
    by (rule round_half_even_err)
  then show ?thesis unfolding py_round_def by (simp add: field_simps abs_le_iff)
qed

lemma np_mean_Some: "xs \<noteq> [] \<Longrightarrow> np_mean xs = Some (mean_value xs)"
  by (simp add: np_mean_def np_div_def mean_value_def)

lemma sum_list_map_nonneg:
  fixes f :: "'a \<Rightarrow> real"
  shows "\<forall>x\<in>set xs. 0 \<le> f x \<Longrightarrow> 0 \<le> sum_list (map f xs)"
  by (induction xs) auto

lemma np_std_Some: "xs \<noteq> [] \<Longrightarrow> np_std xs = Some (std_value xs)"
  by (simp add: np_std_def np_mean_Some std_value_def)

lemma std_value_nonneg: "0 \<le> std_value xs"
  by (simp add: std_value_def mean_value_def sum_list_map_nonneg)

lemma mean_value_nonneg: "\<forall>x\<in>set xs. 0 \<le> x \<Longrightarrow> 0 \<le> mean_value xs"
  using sum_list_map_nonneg [of xs "\<lambda>x. x"] by (simp add: mean_value_def)

lemma cv_value_nonneg: "\<forall>x\<in>set xs. 0 \<le> x \<Longrightarrow> 0 \<le> cv_value xs"
  using mean_value_nonneg [of xs] std_value_nonneg [of xs]
  by (simp add: cv_value_def eps_def)

lemma np_cv_Some:
  "\<forall>x\<in>set xs. 0 \<le> x \<Longrightarrow> np_div (std_value xs) (mean_value xs + eps) = Some (cv_value xs)"
  using mean_value_nonneg [of xs]
  by (simp add: np_div_def cv_value_def eps_def add_nonneg_eq_0_iff)

lemma sum_list_filter_nonneg:
  fixes f :: "'a \<Rightarrow> real"
  shows "\<forall>x\<in>set xs. 0 \<le> f x \<Longrightarrow> 0 \<le> sum_list (map f (filter P xs))"
  by (induction xs) auto

lemma sum_list_filter_le:
  fixes f :: "'a \<Rightarrow> real"
  shows "\<forall>x\<in>set xs. 0 \<le> f x \<Longrightarrow> sum_list (map f (filter P xs)) \<le> sum_list (map f xs)"
  by (induction xs) (auto intro: add_increasing)

lemma update_fresh: "k \<notin> fst ` set al \<Longrightarrow> AList.update k v al = al @ [(k, v)]"
  by (induction al) auto

lemma sum_list_delta:
  fixes c :: real
  shows "distinct ks \<Longrightarrow> sum_list (map (\<lambda>k. if a = k then c else 0) ks) = (if a \<in> set ks then c else 0)"
  by (induction ks) auto

lemma sum_list_group:
  fixes f :: "'a \<Rightarrow> real"
  assumes "distinct ks"
  shows "key ` set xs \<subseteq> set ks \<Longrightarrow>
    sum_list (map (\<lambda>k. sum_list (map f (filter (\<lambda>x. key x = k) xs))) ks) = sum_list (map f xs)"
proof (induction xs)
  case Nil
  then show ?case by simp
next
  case (Cons x xs)
  have "sum_list (map (\<lambda>k. sum_list (map f (filter (\<lambda>x. key x = k) (x # xs)))) ks)
      = sum_list (map (\<lambda>k. (if key x = k then f x else 0)
                            + sum_list (map f (filter (\<lambda>x. key x = k) xs))) ks)"
    by (rule arg_cong [where f = sum_list]) (rule map_cong, auto)
  also have "\<dots> = sum_list (map (\<lambda>k. if key x = k then f x else 0) ks)
                 + sum_list (map (\<lambda>k. sum_list (map f (filter (\<lambda>x. key x = k) xs))) ks)"
    by (simp add: sum_list_addf)
  also have "\<dots> = f x + sum_list (map f xs)"
    using Cons assms by (simp add: sum_list_delta)
  finally show ?case by simp
qed

subsection \<open>The data frame and the iterations\<close>

lemma sum_filter_insort:
  fixes f :: "'a \<Rightarrow> real"
  shows "sum_list (map f (filter P (insort_key k x xs))) = sum_list (map f (filter P (x # xs)))"
  by (induction xs) auto

lemma sum_filter_sort:
  fixes f :: "'a \<Rightarrow> real"
  shows "sum_list (map f (filter P (sort_key k xs))) = sum_list (map f (filter P xs))"
  by (induction xs) (auto simp: sum_filter_insort)

lemma dataframe_set: "set (transactions_to_dataframe txs) = to_row ` set txs"
  by (simp add: transactions_to_dataframe_def)

lemma dataframe_length: "length (transactions_to_dataframe txs) = length txs"
  by (simp add: transactions_to_dataframe_def)

lemma dataframe_nonempty: "txs \<noteq> [] \<Longrightarrow> transactions_to_dataframe txs \<noteq> []"
  using dataframe_length [of txs] by auto

lemma dataframe_sum:
  "sum_list (map col_amount (filter P (transactions_to_dataframe txs)))
     = sum_list (map amount (filter (\<lambda>t. P (to_row t)) txs))"
proof -
  have "sum_list (map col_amount (filter P (transactions_to_dataframe txs)))
      = sum_list (map col_amount (filter P (map to_row txs)))"
    by (simp add: transactions_to_dataframe_def sum_filter_sort)
  also have "\<dots> = sum_list (map amount (filter (\<lambda>t. P (to_row t)) txs))"
    by (simp add: filter_map comp_def to_row_def)
  finally show ?thesis .
qed

lemma dataframe_nonneg:
  "list_all (\<lambda>t. 0 \<le> amount t) txs \<Longrightarrow> \<forall>r\<in>set (transactions_to_dataframe txs). 0 \<le> col_amount r"
  by (auto simp: dataframe_set list_all_iff to_row_def)

lemma tbl_columns_groupby:
  "t \<in> set (tbl_columns (groupby_month_type df)) \<longleftrightarrow> t \<in> col_type ` set df"
  by (cases t) (auto simp: groupby_month_type_def)

lemma tbl_value_groupby:
  "tbl_value (groupby_month_type df) m t
     = sum_list (map col_amount (filter (\<lambda>r. col_month r = m \<and> col_type r = t) df))"
  by (simp add: groupby_month_type_def)

lemma tbl_index_groupby: "set (tbl_index (groupby_month_type df)) = col_month ` set df"
  by (simp add: groupby_month_type_def)

lemma loc_or_zero_groupby:
  assumes "m \<in> col_month ` set df"
  shows "loc_or_zero (groupby_month_type df) m t
           = Some (tbl_value (groupby_month_type df) m t)"
proof (cases "t \<in> col_type ` set df")
  case True
  then show ?thesis using assms
    by (simp add: loc_or_zero_def loc_def tbl_columns_groupby tbl_index_groupby)
next
  case False
  then have "filter (\<lambda>r. col_month r = m \<and> col_type r = t) df = []"
    by (auto simp: filter_empty_conv)
  then show ?thesis using False
    by (simp add: loc_or_zero_def tbl_columns_groupby tbl_value_groupby)
qed

lemma tbl_value_nonneg:
  "\<forall>r\<in>set df. 0 \<le> col_amount r \<Longrightarrow> 0 \<le> tbl_value (groupby_month_type df) m t"
  by (simp add: groupby_month_type_def sum_list_filter_nonneg)

lemma tbl_index_distinct: "distinct (tbl_index (groupby_month_type df))"
  by (simp add: groupby_month_type_def)

lemma tbl_index_nonempty: "df \<noteq> [] \<Longrightarrow> tbl_index (groupby_month_type df) \<noteq> []"
  using tbl_index_groupby [of df] by (cases df) auto

lemma summary_loop_Some:
  assumes "distinct months" and "set months \<subseteq> col_month ` set df"
    and "set months \<inter> fst ` set sp = {}" and "set months \<inter> fst ` set sv = {}"
  shows "summary_loop (groupby_month_type df) months sp sv =
           Some (sp @ map (\<lambda>m. (m, tbl_value (groupby_month_type df) m DEBIT)) months,
                 sv @ map (\<lambda>m. (m, max 0 (tbl_value (groupby_month_type df) m CREDIT
                                          - tbl_value (groupby_month_type df) m DEBIT))) months)"
  using assms
proof (induction months arbitrary: sp sv)
  case Nil
  then show ?case by simp
next
  case (Cons m months)
  have fresh: "m \<notin> fst ` set sp" "m \<notin> fst ` set sv" using Cons.prems by auto
  have m: "m \<in> col_month ` set df" using Cons.prems by auto
  have rest: "distinct months" "set months \<subseteq> col_month ` set df"
    "set months \<inter> fst ` set (sp @ [(m, a)]) = {}"
    "set months \<inter> fst ` set (sv @ [(m, b)]) = {}" for a b
    using Cons.prems by auto
  show ?case
    by (simp add: loc_or_zero_groupby [OF m] update_fresh [OF fresh(1)] update_fresh [OF fresh(2)]
        Cons.IH [OF rest])
qed

lemma analysis_loop_Some:
  assumes "distinct months" and "set months \<subseteq> col_month ` set df"
    and "set months \<inter> fst ` set acc = {}" and "\<forall>r\<in>set df. 0 \<le> col_amount r"
  shows "analysis_loop (groupby_month_type df) months acc =
           Some (acc @ map (\<lambda>m. (m, \<lparr>income = tbl_value (groupby_month_type df) m CREDIT,
                                      spending = tbl_value (groupby_month_type df) m DEBIT,
                                      savings_rate =
                                        (tbl_value (groupby_month_type df) m CREDIT
                                          - tbl_value (groupby_month_type df) m DEBIT)
                                        / (tbl_value (groupby_month_type df) m CREDIT + eps)\<rparr>))
                          months)"
  using assms(1-3)
proof (induction months arbitrary: acc)
  case Nil
  then show ?case by simp
next
  case (Cons m months)
  have fresh: "m \<notin> fst ` set acc" using Cons.prems by auto
  have m: "m \<in> col_month ` set df" using Cons.prems by auto
  have rest: "distinct months" "set months \<subseteq> col_month ` set df"
    "set months \<inter> fst ` set (acc @ [(m, a)]) = {}" for a
    using Cons.prems by auto
  have "0 \<le> tbl_value (groupby_month_type df) m CREDIT"
    by (rule tbl_value_nonneg [OF assms(4)])
  then have nz: "tbl_value (groupby_month_type df) m CREDIT + eps \<noteq> 0"
    by (simp add: eps_def add_nonneg_eq_0_iff)
  show ?case
    by (simp add: loc_or_zero_groupby [OF m] update_fresh [OF fresh] np_div_def nz Cons.IH [OF rest])
qed

lemma distribution_loop_Some:
  assumes "distinct (map fst items)" and "fst ` set items \<inter> fst ` set acc = {}" and "tot \<noteq> 0"
  shows "distribution_loop tot items acc =
           Some (acc @ map (\<lambda>item. (fst item, py_round (snd item / tot) 3)) items)"
  using assms(1,2)
proof (induction items arbitrary: acc)
  case Nil
  then show ?case by simp
next
  case (Cons item items)
  have fresh: "fst item \<notin> fst ` set acc" using Cons.prems by auto
  have rest: "distinct (map fst items)" "fst ` set items \<inter> fst ` set (acc @ [(fst item, a)]) = {}" for a
    using Cons.prems by auto
  show ?case
    by (simp add: np_div_def assms(3) update_fresh [OF fresh] Cons.IH [OF rest])
qed

lemma those_map_Some: "\<forall>x\<in>set xs. f x = Some (g x) \<Longrightarrow> those (map f xs) = Some (map g xs)"
  by (induction xs) auto

subsection \<open>The stages on a non-empty frame of non-negative amounts\<close>

lemma calculate_financial_summary_Some:
  assumes "df \<noteq> []" and "\<forall>r\<in>set df. 0 \<le> col_amount r"
  shows "calculate_financial_summary df = Some
       \<lparr>monthly_spendings =
          map (\<lambda>m. (m, tbl_value (groupby_month_type df) m DEBIT))
            (tbl_index (groupby_month_type df)),
        monthly_savings =
          map (\<lambda>m. (m, max 0 (tbl_value (groupby_month_type df) m CREDIT
                              - tbl_value (groupby_month_type df) m DEBIT)))
            (tbl_index (groupby_month_type df)),
        total_savings =
          sum_list (map (\<lambda>m. max 0 (tbl_value (groupby_month_type df) m CREDIT
                              - tbl_value (groupby_month_type df) m DEBIT))
            (tbl_index (groupby_month_type df))),
        income_volatility =
          py_round (cv_value (map (\<lambda>m. tbl_value (groupby_month_type df) m CREDIT)
                       (tbl_index (groupby_month_type df)))) 3,
        spending_volatility =
          py_round (cv_value (map (\<lambda>m. tbl_value (groupby_month_type df) m DEBIT)
                       (tbl_index (groupby_month_type df)))) 3,
        consistency_score =
          py_round (max 0 (1 -
            (cv_value (map (\<lambda>m. tbl_value (groupby_month_type df) m CREDIT)
                       (tbl_index (groupby_month_type df)))
             + cv_value (map (\<lambda>m. tbl_value (groupby_month_type df) m DEBIT)
                       (tbl_index (groupby_month_type df)))) / 2)) 3,
        transaction_frequency = length df\<rparr>"
proof -
  define md where "md = groupby_month_type df"
  define ms where "ms = tbl_index md"
  have ms_sub: "set ms \<subseteq> col_month ` set df"
    by (simp add: ms_def md_def tbl_index_groupby)
  have ms_ne: "ms \<noteq> []"
    unfolding ms_def md_def by (rule tbl_index_nonempty [OF assms(1)])
  have loop: "summary_loop md ms [] [] =
      Some (map (\<lambda>m. (m, tbl_value md m DEBIT)) ms,
            map (\<lambda>m. (m, max 0 (tbl_value md m CREDIT - tbl_value md m DEBIT))) ms)"
    using summary_loop_Some [of ms df "[]" "[]"] ms_sub
    by (simp add: ms_def md_def tbl_index_distinct)
  have incomes: "those (map (\<lambda>month. loc_or_zero md month CREDIT) ms)
      = Some (map (\<lambda>m. tbl_value md m CREDIT) ms)"
    using ms_sub by (intro those_map_Some) (auto simp: md_def loc_or_zero_groupby)
  have nn: "\<forall>x\<in>set (map (\<lambda>m. tbl_value md m t) ms). 0 \<le> x" for t
    using tbl_value_nonneg [OF assms(2)] by (auto simp: md_def)
  have ne: "map (\<lambda>m. tbl_value md m t) ms \<noteq> []" for t
    using ms_ne by simp
  show ?thesis
    unfolding calculate_financial_summary_def Let_def
    by (simp add: md_def [symmetric] ms_def [symmetric] loop incomes comp_def
        np_std_Some [OF ne] np_mean_Some [OF ne] np_cv_Some [OF nn])
qed

lemma groupby_sum_fst: "map fst (groupby_sum key rows) = sort (remdups (map key rows))"
  by (simp add: groupby_sum_def comp_def)

lemma groupby_sum_snd:
  "map snd (groupby_sum key rows)
     = map (\<lambda>k. sum_list (map col_amount (filter (\<lambda>r. key r = k) rows)))
         (sort (remdups (map key rows)))"
  by (simp add: groupby_sum_def comp_def)

lemma groupby_sum_total:
  "sum_list (map snd (groupby_sum key rows)) = sum_list (map col_amount rows)"
  unfolding groupby_sum_snd by (rule sum_list_group) auto

lemma groupby_sum_nonneg:
  "\<forall>r\<in>set rows. 0 \<le> col_amount r \<Longrightarrow> \<forall>x\<in>set (map snd (groupby_sum key rows)). 0 \<le> x"
  unfolding groupby_sum_snd by (auto simp: sum_list_filter_nonneg)

lemma determine_spending_stability_Some:
  assumes "\<forall>r\<in>set df. 0 \<le> col_amount r"
  shows "\<exists>stability. determine_spending_stability df = Some stability"
proof -
  define ms where "ms = map snd (groupby_sum col_month (filter (\<lambda>r. col_type r = DEBIT) df))"
  have nn: "\<forall>x\<in>set ms. 0 \<le> x"
    unfolding ms_def by (rule groupby_sum_nonneg) (use assms in auto)
  show ?thesis
  proof (cases "length ms < 2")
    case True
    then show ?thesis
      unfolding determine_spending_stability_def Let_def by (simp add: ms_def)
  next
    case False
    then have ne: "ms \<noteq> []" by auto
    show ?thesis using False
      unfolding determine_spending_stability_def Let_def
      by (simp add: ms_def [symmetric] np_std_Some [OF ne] np_mean_Some [OF ne] np_cv_Some [OF nn])
  qed
qed

lemma calculate_behavioral_analysis_Some:
  assumes "df \<noteq> []" and "\<forall>r\<in>set df. 0 \<le> col_amount r"
  shows "\<exists>stability. calculate_behavioral_analysis df = Some
     \<lparr>spending_pattern_distribution =
        (if 0 < sum_list (map col_amount (filter (\<lambda>r. col_type r = DEBIT) df))
         then map (\<lambda>item. (fst item, py_round (snd item
                 / sum_list (map col_amount (filter (\<lambda>r. col_type r = DEBIT) df))) 3))
                (groupby_sum col_category (filter (\<lambda>r. col_type r = DEBIT) df))
         else []),
      income_and_spending_analysis =
        map (\<lambda>m. (m, \<lparr>income = tbl_value (groupby_month_type df) m CREDIT,
                      spending = tbl_value (groupby_month_type df) m DEBIT,
                      savings_rate =
                        (tbl_value (groupby_month_type df) m CREDIT
                          - tbl_value (groupby_month_type df) m DEBIT)
                        / (tbl_value (groupby_month_type df) m CREDIT + eps)\<rparr>))
          (tbl_index (groupby_month_type df)),
      spending_stability = stability,
      behavioral_patterns =
        \<lparr>essential_spending_ratio = py_round
           (if 0 < sum_list (map col_amount (filter (\<lambda>r. col_type r = DEBIT) df))
            then sum_list (map col_amount (filter (\<lambda>r. col_category r \<in> essential_categories)
                   (filter (\<lambda>r. col_type r = DEBIT) df)))
                 / sum_list (map col_amount (filter (\<lambda>r. col_type r = DEBIT) df))
            else 0) 3,
         high_risk_spending_ratio = py_round
           (if 0 < sum_list (map col_amount (filter (\<lambda>r. col_type r = DEBIT) df))
            then sum_list (map col_amount (filter (\<lambda>r. col_category r \<in> high_risk_categories)
                   (filter (\<lambda>r. col_type r = DEBIT) df)))
                 / sum_list (map col_amount (filter (\<lambda>r. col_type r = DEBIT) df))
            else 0) 3,
         weekend_spending_ratio = py_round
           (if 0 < sum_list (map col_amount (filter (\<lambda>r. col_type r = DEBIT) df))
            then sum_list (map col_amount (filter col_is_weekend
                   (filter (\<lambda>r. col_type r = DEBIT) df)))
                 / sum_list (map col_amount (filter (\<lambda>r. col_type r = DEBIT) df))
            else 0) 3\<rparr>\<rparr>"
proof -
  define debit where "debit = filter (\<lambda>r. col_type r = DEBIT) df"
  define T where "T = sum_list (map col_amount debit)"
  define md where "md = groupby_month_type df"
  obtain stability where st: "determine_spending_stability df = Some stability"
    using determine_spending_stability_Some [OF assms(2)] by blast
  have total: "sum_list (map snd (groupby_sum col_category debit)) = T"
    by (simp add: groupby_sum_total T_def)
  have dist: "0 < T \<Longrightarrow> distribution_loop T (groupby_sum col_category debit) []
      = Some (map (\<lambda>item. (fst item, py_round (snd item / T) 3)) (groupby_sum col_category debit))"
    using distribution_loop_Some [of "groupby_sum col_category debit" "[]" T]
    by (simp add: groupby_sum_fst)
  have loop: "analysis_loop md (tbl_index md) [] =
      Some (map (\<lambda>m. (m, \<lparr>income = tbl_value md m CREDIT, spending = tbl_value md m DEBIT,
                          savings_rate = (tbl_value md m CREDIT - tbl_value md m DEBIT)
                                         / (tbl_value md m CREDIT + eps)\<rparr>)) (tbl_index md))"
    using analysis_loop_Some [of "tbl_index md" df "[]"] assms(2)
    by (simp add: md_def tbl_index_distinct tbl_index_groupby)
  have "calculate_behavioral_analysis df = Some
     \<lparr>spending_pattern_distribution =
        (if 0 < T then map (\<lambda>item. (fst item, py_round (snd item / T) 3))
                        (groupby_sum col_category debit)
         else []),
      income_and_spending_analysis =
        map (\<lambda>m. (m, \<lparr>income = tbl_value md m CREDIT, spending = tbl_value md m DEBIT,
                      savings_rate = (tbl_value md m CREDIT - tbl_value md m DEBIT)
                                     / (tbl_value md m CREDIT + eps)\<rparr>)) (tbl_index md),
      spending_stability = stability,
      behavioral_patterns =
        \<lparr>essential_spending_ratio = py_round
           (if 0 < T
            then sum_list (map col_amount (filter (\<lambda>r. col_category r \<in> essential_categories) debit)) / T
            else 0) 3,
         high_risk_spending_ratio = py_round
           (if 0 < T
            then sum_list (map col_amount (filter (\<lambda>r. col_category r \<in> high_risk_categories) debit)) / T
            else 0) 3,
         weekend_spending_ratio = py_round
           (if 0 < T
            then sum_list (map col_amount (filter col_is_weekend debit)) / T
            else 0) 3\<rparr>\<rparr>"
  proof (cases "0 < T")
    case True
    then have nz: "T \<noteq> 0" by simp
    show ?thesis
      unfolding calculate_behavioral_analysis_def Let_def
      by (simp add: debit_def [symmetric] md_def [symmetric] total T_def [symmetric]
          True dist loop st np_div_def nz)
  next
    case False
    show ?thesis
      unfolding calculate_behavioral_analysis_def Let_def
      by (simp add: debit_def [symmetric] md_def [symmetric] total T_def [symmetric]
          False loop st)
  qed
  then show ?thesis unfolding T_def debit_def md_def by blast
qed

lemma calculate_risk_assessment_Some:
  assumes "\<forall>item\<in>set (income_and_spending_analysis ba). 0 \<le> income (snd item)"
  shows "calculate_risk_assessment df ba = Some
     \<lparr>risk_essential_spending =
        py_round (max 0 (50 - essential_spending_ratio (behavioral_patterns ba) * 50)) 1,
      high_risk_spending = py_round (high_risk_spending_ratio (behavioral_patterns ba) * 100) 1,
      weekend_spending =
        py_round (min (weekend_spending_ratio (behavioral_patterns ba) * 100) 50) 1,
      loan_eligibility_factors =
        (if (if 0.5 < essential_spending_ratio (behavioral_patterns ba)
             then [''High essential spending ratio''] else [])
            @ (if high_risk_spending_ratio (behavioral_patterns ba) < 0.15
               then [''Low discretionary spending''] else [])
            @ (if spending_stability ba \<in> set [STABILITY_HIGH, STABILITY_MEDIUM]
               then [''Stable spending pattern''] else [])
            @ (if 1 < length (income_and_spending_analysis ba)
                  \<and> cv_value (map (\<lambda>item. income (snd item)) (income_and_spending_analysis ba)) < 0.3
               then [''Stable income''] else []) = []
         then [''Standard risk profile'']
         else (if 0.5 < essential_spending_ratio (behavioral_patterns ba)
             then [''High essential spending ratio''] else [])
            @ (if high_risk_spending_ratio (behavioral_patterns ba) < 0.15
               then [''Low discretionary spending''] else [])
            @ (if spending_stability ba \<in> set [STABILITY_HIGH, STABILITY_MEDIUM]
               then [''Stable spending pattern''] else [])
            @ (if 1 < length (income_and_spending_analysis ba)
                  \<and> cv_value (map (\<lambda>item. income (snd item)) (income_and_spending_analysis ba)) < 0.3
               then [''Stable income''] else []))\<rparr>"
proof -
  define mi where "mi = map (\<lambda>item. income (snd item)) (income_and_spending_analysis ba)"
  have nn: "\<forall>x\<in>set mi. 0 \<le> x" using assms by (auto simp: mi_def)
  have len: "length mi = length (income_and_spending_analysis ba)" by (simp add: mi_def)
  have stable: "(if 1 < length mi then do {
          s \<leftarrow> np_std mi;
          m \<leftarrow> np_mean mi;
          cv \<leftarrow> np_div s (m + eps);
          Some (cv < 0.3)
        }
        else Some False) = Some (1 < length mi \<and> cv_value mi < 0.3)"
  proof (cases "1 < length mi")
    case True
    then have ne: "mi \<noteq> []" by auto
    show ?thesis using True
      by (simp add: np_std_Some [OF ne] np_mean_Some [OF ne] np_cv_Some [OF nn])
  next
    case False
    then show ?thesis by simp
  qed
  show ?thesis
    unfolding calculate_risk_assessment_def Let_def mi_def [symmetric]
    by (simp only: stable) (simp add: len)
qed

lemma calculate_overall_risk_score_Some:
  assumes "income_and_spending_analysis ba \<noteq> []"
  shows "\<exists>s. calculate_overall_risk_score fs ba ra = Some s \<and> 0 \<le> s \<and> s \<le> 100"
proof -
  have ne: "map (\<lambda>item. savings_rate (snd item)) (income_and_spending_analysis ba) \<noteq> []"
    using assms by simp
  show ?thesis
    unfolding calculate_overall_risk_score_def Let_def
    by (simp add: np_mean_Some [OF ne])
qed

lemma determine_loan_eligibility_Some:
  assumes "income_and_spending_analysis ba \<noteq> []"
  shows "determine_loan_eligibility s fs ba =
     Some (if 75 < s
       then (False, ''High risk profile with significant financial volatility'')
       else if essential_spending_ratio (behavioral_patterns ba) < 0.3
       then (False, ''Insufficient essential spending pattern indicating unstable lifestyle'')
       else if 0.25 < high_risk_spending_ratio (behavioral_patterns ba)
       then (False, ''Excessive high-risk spending indicating poor financial discipline'')
       else if mean_value (map (\<lambda>item. savings_rate (snd item))
                 (income_and_spending_analysis ba)) < - 0.1
       then (False, ''Negative savings rate indicating financial stress'')
       else if consistency_score fs < 0.3
       then (False, ''Highly inconsistent financial behavior'')
       else (True, ''Eligible based on '' @ join '', ''
          (if (if 0.5 < essential_spending_ratio (behavioral_patterns ba)
               then [''stable essential spending''] else [])
              @ (if high_risk_spending_ratio (behavioral_patterns ba) < 0.15
                 then [''controlled discretionary spending''] else [])
              @ (if 0.7 < consistency_score fs
                 then [''consistent financial behavior''] else [])
              @ (if 0.05 < mean_value (map (\<lambda>item. savings_rate (snd item))
                             (income_and_spending_analysis ba))
                 then [''positive savings rate''] else []) = []
           then [''acceptable risk profile'']
           else (if 0.5 < essential_spending_ratio (behavioral_patterns ba)
               then [''stable essential spending''] else [])
              @ (if high_risk_spending_ratio (behavioral_patterns ba) < 0.15
                 then [''controlled discretionary spending''] else [])
              @ (if 0.7 < consistency_score fs
                 then [''consistent financial behavior''] else [])
              @ (if 0.05 < mean_value (map (\<lambda>item. savings_rate (snd item))
                             (income_and_spending_analysis ba))
                 then [''positive savings rate''] else []))))"
proof -
  have ne: "map (\<lambda>item. savings_rate (snd item)) (income_and_spending_analysis ba) \<noteq> []"
    using assms by simp
  show ?thesis
    unfolding determine_loan_eligibility_def Let_def
    by (simp only: np_mean_Some [OF ne]) simp
qed

lemma analyze_transactions_Some:
  assumes "transactions \<noteq> []" and "nonneg_amounts transactions"
  shows "\<exists>fs ba ra s e.
     calculate_financial_summary (transactions_to_dataframe transactions) = Some fs
     \<and> calculate_behavioral_analysis (transactions_to_dataframe transactions) = Some ba
     \<and> calculate_risk_assessment (transactions_to_dataframe transactions) ba = Some ra
     \<and> calculate_overall_risk_score fs ba ra = Some s
     \<and> determine_loan_eligibility s fs ba = Some e
     \<and> income_and_spending_analysis ba \<noteq> []
     \<and> analyze_transactions now transactions = Some
          \<lparr>overall_risk_score = py_round s 1,
           risk_category = determine_risk_category s,
           loan_eligibility = fst e,
           eligibility_reason = snd e,
           financial_summary = fs,
           behavioral_analysis = ba,
           risk_assessment_details = ra,
           created_at = now\<rparr>"
proof -
  define df where "df = transactions_to_dataframe transactions"
  have ne: "df \<noteq> []" unfolding df_def by (rule dataframe_nonempty [OF assms(1)])
  have nn: "\<forall>r\<in>set df. 0 \<le> col_amount r"
    unfolding df_def using assms(2) by (intro dataframe_nonneg) (simp add: nonneg_amounts_def)
  obtain fs where fs: "calculate_financial_summary df = Some fs"
    using calculate_financial_summary_Some [OF ne nn] by blast
  obtain stability where ba0: "calculate_behavioral_analysis df = Some
     \<lparr>spending_pattern_distribution =
        (if 0 < sum_list (map col_amount (filter (\<lambda>r. col_type r = DEBIT) df))
         then map (\<lambda>item. (fst item, py_round (snd item
                 / sum_list (map col_amount (filter (\<lambda>r. col_type r = DEBIT) df))) 3))
                (groupby_sum col_category (filter (\<lambda>r. col_type r = DEBIT) df))
         else []),
      income_and_spending_analysis =
        map (\<lambda>m. (m, \<lparr>income = tbl_value (groupby_month_type df) m CREDIT,
                      spending = tbl_value (groupby_month_type df) m DEBIT,
                      savings_rate =
                        (tbl_value (groupby_month_type df) m CREDIT
                          - tbl_value (groupby_month_type df) m DEBIT)
                        / (tbl_value (groupby_month_type df) m CREDIT + eps)\<rparr>))
          (tbl_index (groupby_month_type df)),
      spending_stability = stability,
      behavioral_patterns =
        \<lparr>essential_spending_ratio = py_round
           (if 0 < sum_list (map col_amount (filter (\<lambda>r. col_type r = DEBIT) df))
            then sum_list (map col_amount (filter (\<lambda>r. col_category r \<in> essential_categories)
                   (filter (\<lambda>r. col_type r = DEBIT) df)))
                 / sum_list (map col_amount (filter (\<lambda>r. col_type r = DEBIT) df))
            else 0) 3,
         high_risk_spending_ratio = py_round
           (if 0 < sum_list (map col_amount (filter (\<lambda>r. col_type r = DEBIT) df))
            then sum_list (map col_amount (filter (\<lambda>r. col_category r \<in> high_risk_categories)
                   (filter (\<lambda>r. col_type r = DEBIT) df)))
                 / sum_list (map col_amount (filter (\<lambda>r. col_type r = DEBIT) df))
            else 0) 3,
         weekend_spending_ratio = py_round
           (if 0 < sum_list (map col_amount (filter (\<lambda>r. col_type r = DEBIT) df))
            then sum_list (map col_amount (filter col_is_weekend
                   (filter (\<lambda>r. col_type r = DEBIT) df)))
                 / sum_list (map col_amount (filter (\<lambda>r. col_type r = DEBIT) df))
            else 0) 3\<rparr>\<rparr>"
    using calculate_behavioral_analysis_Some [OF ne nn] by blast
  then obtain ba where ba: "calculate_behavioral_analysis df = Some ba"
    and isa: "income_and_spending_analysis ba =
        map (\<lambda>m. (m, \<lparr>income = tbl_value (groupby_month_type df) m CREDIT,
                      spending = tbl_value (groupby_month_type df) m DEBIT,
                      savings_rate =
                        (tbl_value (groupby_month_type df) m CREDIT
                          - tbl_value (groupby_month_type df) m DEBIT)
                        / (tbl_value (groupby_month_type df) m CREDIT + eps)\<rparr>))
          (tbl_index (groupby_month_type df))"
    by simp
  have isa_ne: "income_and_spending_analysis ba \<noteq> []"
    using tbl_index_nonempty [OF ne] by (simp add: isa)
  have inc: "\<forall>item\<in>set (income_and_spending_analysis ba). 0 \<le> income (snd item)"
    using tbl_value_nonneg [OF nn] by (auto simp: isa)
  obtain ra where ra: "calculate_risk_assessment df ba = Some ra"
    using calculate_risk_assessment_Some [OF inc] by blast
  obtain s where s: "calculate_overall_risk_score fs ba ra = Some s"
    using calculate_overall_risk_score_Some [OF isa_ne] by blast
  obtain e where e: "determine_loan_eligibility s fs ba = Some e"
    using determine_loan_eligibility_Some [OF isa_ne] by blast
  have "analyze_transactions now transactions = Some
          \<lparr>overall_risk_score = py_round s 1,
           risk_category = determine_risk_category s,
           loan_eligibility = fst e,
           eligibility_reason = snd e,
           financial_summary = fs,
           behavioral_analysis = ba,
           risk_assessment_details = ra,
           created_at = now\<rparr>"
    unfolding analyze_transactions_def Let_def
    using assms(1) by (simp add: df_def [symmetric] fs ba ra s e case_prod_beta)
  then show ?thesis using fs ba ra s e isa_ne unfolding df_def by blast
qed

subsection \<open>The stages in terms of the transactions\<close>

lemma sort_remdups_cong: "set xs = set ys \<Longrightarrow> sort (remdups xs) = sort (remdups ys)"
  by (metis sorted_list_of_set_sort_remdups)

lemma col_month_to_row: "col_month (to_row t) = month_bucket t"
  by (simp add: to_row_def month_bucket_def)

lemma col_category_to_row: "col_category (to_row t) = category_normalized t"
  by (simp add: to_row_def category_normalized_def)

lemma col_type_to_row: "col_type (to_row t) = txn_type t"
  by (simp add: to_row_def)

lemma col_is_weekend_to_row: "col_is_weekend (to_row t) = is_weekend t"
  by (simp add: to_row_def is_weekend_def weekend_days_def)

lemma index_spec_months:
  "tbl_index (groupby_month_type (transactions_to_dataframe txs)) = spec_months txs"
proof -
  have "set (map col_month (transactions_to_dataframe txs)) = set (map month_bucket txs)"
    by (simp add: dataframe_set image_image col_month_to_row)
  then show ?thesis
    unfolding groupby_month_type_def spec_months_def by (simp add: sort_remdups_cong)
qed

lemma value_spec_income:
  "tbl_value (groupby_month_type (transactions_to_dataframe txs)) m CREDIT = spec_income txs m"
  by (simp add: tbl_value_groupby dataframe_sum spec_income_def col_month_to_row col_type_to_row
      is_credit_def)

lemma value_spec_spending:
  "tbl_value (groupby_month_type (transactions_to_dataframe txs)) m DEBIT = spec_spending txs m"
  by (simp add: tbl_value_groupby dataframe_sum spec_spending_def col_month_to_row col_type_to_row
      is_debit_def)

lemma debit_sum_spec:
  "sum_list (map col_amount (filter P (filter (\<lambda>r. col_type r = DEBIT) (transactions_to_dataframe txs))))
     = sum_list (map amount (filter (\<lambda>t. is_debit t \<and> P (to_row t)) txs))"
  by (simp add: dataframe_sum col_type_to_row is_debit_def conj_commute)

lemma total_debit_spec:
  "sum_list (map col_amount (filter (\<lambda>r. col_type r = DEBIT) (transactions_to_dataframe txs)))
     = spec_total_debit txs"
  by (simp add: dataframe_sum col_type_to_row is_debit_def [abs_def] spec_total_debit_def)

lemma essential_debit_spec:
  "sum_list (map col_amount (filter (\<lambda>r. col_category r \<in> essential_categories)
       (filter (\<lambda>r. col_type r = DEBIT) (transactions_to_dataframe txs))))
     = spec_essential_debit txs"
  unfolding debit_sum_spec by (simp add: col_category_to_row spec_essential_debit_def)

lemma high_risk_debit_spec:
  "sum_list (map col_amount (filter (\<lambda>r. col_category r \<in> high_risk_categories)
       (filter (\<lambda>r. col_type r = DEBIT) (transactions_to_dataframe txs))))
     = spec_high_risk_debit txs"
  unfolding debit_sum_spec by (simp add: col_category_to_row spec_high_risk_debit_def)

lemma weekend_debit_spec:
  "sum_list (map col_amount (filter col_is_weekend
       (filter (\<lambda>r. col_type r = DEBIT) (transactions_to_dataframe txs))))
     = spec_weekend_debit txs"
  unfolding debit_sum_spec by (simp add: col_is_weekend_to_row spec_weekend_debit_def)

lemma groupby_category_spec:
  "groupby_sum col_category (filter (\<lambda>r. col_type r = DEBIT) (transactions_to_dataframe txs))
     = map (\<lambda>c. (c, spec_category_debit txs c)) (spec_debit_categories txs)"
proof -
  have "set (map col_category (filter (\<lambda>r. col_type r = DEBIT) (transactions_to_dataframe txs)))
      = set (map category_normalized (filter is_debit txs))"
    by (fastforce simp: dataframe_set col_category_to_row col_type_to_row is_debit_def image_iff)
  then have keys: "sort (remdups (map col_category
        (filter (\<lambda>r. col_type r = DEBIT) (transactions_to_dataframe txs))))
      = spec_debit_categories txs"
    unfolding spec_debit_categories_def by (rule sort_remdups_cong)
  have vals: "sum_list (map col_amount (filter (\<lambda>r. col_category r = c)
        (filter (\<lambda>r. col_type r = DEBIT) (transactions_to_dataframe txs))))
      = spec_category_debit txs c" for c
    unfolding debit_sum_spec by (simp add: col_category_to_row spec_category_debit_def)
  show ?thesis unfolding groupby_sum_def keys vals ..
qed

lemma spec_nonneg:
  assumes "nonneg_amounts txs"
  shows "0 \<le> sum_list (map amount (filter P txs))"
  using assms by (intro sum_list_filter_nonneg) (simp add: nonneg_amounts_def list_all_iff)

lemma spec_debit_le_total:
  assumes "nonneg_amounts txs"
  shows "sum_list (map amount (filter (\<lambda>t. is_debit t \<and> P t) txs)) \<le> spec_total_debit txs"
proof -
  have "sum_list (map amount (filter P (filter is_debit txs)))
      \<le> sum_list (map amount (filter is_debit txs))"
    using assms by (intro sum_list_filter_le) (simp add: nonneg_amounts_def list_all_iff)
  then show ?thesis by (simp add: spec_total_debit_def conj_commute is_debit_def [abs_def])
qed

lemma financial_summary_spec:
  assumes "txs \<noteq> []" and "nonneg_amounts txs"
  shows "calculate_financial_summary (transactions_to_dataframe txs) = Some
       \<lparr>monthly_spendings = map (\<lambda>m. (m, spec_spending txs m)) (spec_months txs),
        monthly_savings =
          map (\<lambda>m. (m, max 0 (spec_income txs m - spec_spending txs m))) (spec_months txs),
        total_savings =
          sum_list (map (\<lambda>m. max 0 (spec_income txs m - spec_spending txs m)) (spec_months txs)),
        income_volatility = py_round (cv_value (spec_monthly_incomes txs)) 3,
        spending_volatility = py_round (cv_value (map (spec_spending txs) (spec_months txs))) 3,
        consistency_score =
          py_round (max 0 (1 - (cv_value (spec_monthly_incomes txs)
                                 + cv_value (map (spec_spending txs) (spec_months txs))) / 2)) 3,
        transaction_frequency = length txs\<rparr>"
proof -
  have ne: "transactions_to_dataframe txs \<noteq> []" by (rule dataframe_nonempty [OF assms(1)])
  have nn: "\<forall>r\<in>set (transactions_to_dataframe txs). 0 \<le> col_amount r"
    using assms(2) by (intro dataframe_nonneg) (simp add: nonneg_amounts_def)
  show ?thesis
    unfolding calculate_financial_summary_Some [OF ne nn] index_spec_months value_spec_income
      value_spec_spending dataframe_length spec_monthly_incomes_def ..
qed

lemma behavioral_analysis_spec:
  assumes "txs \<noteq> []" and "nonneg_amounts txs"
  shows "\<exists>stability. calculate_behavioral_analysis (transactions_to_dataframe txs) = Some
     \<lparr>spending_pattern_distribution =
        (if 0 < spec_total_debit txs
         then map (\<lambda>c. (c, py_round (spec_category_debit txs c / spec_total_debit txs) 3))
                (spec_debit_categories txs)
         else []),
      income_and_spending_analysis =
        map (\<lambda>m. (m, \<lparr>income = spec_income txs m, spending = spec_spending txs m,
                      savings_rate = (spec_income txs m - spec_spending txs m)
                                     / (spec_income txs m + eps)\<rparr>))
          (spec_months txs),
      spending_stability = stability,
      behavioral_patterns =
        \<lparr>essential_spending_ratio = py_round
           (if 0 < spec_total_debit txs then spec_essential_debit txs / spec_total_debit txs else 0) 3,
         high_risk_spending_ratio = py_round
           (if 0 < spec_total_debit txs then spec_high_risk_debit txs / spec_total_debit txs else 0) 3,
         weekend_spending_ratio = py_round
           (if 0 < spec_total_debit txs then spec_weekend_debit txs / spec_total_debit txs else 0) 3\<rparr>\<rparr>"
proof -
  have ne: "transactions_to_dataframe txs \<noteq> []" by (rule dataframe_nonempty [OF assms(1)])
  have nn: "\<forall>r\<in>set (transactions_to_dataframe txs). 0 \<le> col_amount r"
    using assms(2) by (intro dataframe_nonneg) (simp add: nonneg_amounts_def)
  show ?thesis
    using calculate_behavioral_analysis_Some [OF ne nn]
    unfolding index_spec_months value_spec_income value_spec_spending total_debit_spec
      essential_debit_spec high_risk_debit_spec weekend_debit_spec groupby_category_spec
      map_map comp_def fst_conv snd_conv
    by this
qed

lemma spec_ratio_bounds:
  assumes "nonneg_amounts txs"
  shows "0 \<le> (if 0 < spec_total_debit txs
               then sum_list (map amount (filter (\<lambda>t. is_debit t \<and> P t) txs)) / spec_total_debit txs
               else 0)"
    and "(if 0 < spec_total_debit txs
          then sum_list (map amount (filter (\<lambda>t. is_debit t \<and> P t) txs)) / spec_total_debit txs
          else 0) \<le> 1"
  using spec_nonneg [OF assms, of "\<lambda>t. is_debit t \<and> P t"] spec_debit_le_total [OF assms, of P]
  by auto

lemma behavioral_patterns_bounds:
  assumes "txs \<noteq> []" and "nonneg_amounts txs"
    and "calculate_behavioral_analysis (transactions_to_dataframe txs) = Some ba"
  shows "0 \<le> essential_spending_ratio (behavioral_patterns ba)"
    and "essential_spending_ratio (behavioral_patterns ba) \<le> 1"
    and "0 \<le> high_risk_spending_ratio (behavioral_patterns ba)"
    and "high_risk_spending_ratio (behavioral_patterns ba) \<le> 1"
    and "0 \<le> weekend_spending_ratio (behavioral_patterns ba)"
    and "weekend_spending_ratio (behavioral_patterns ba) \<le> 1"
proof -
  obtain stability where "Some ba = Some
     \<lparr>spending_pattern_distribution =
        (if 0 < spec_total_debit txs
         then map (\<lambda>c. (c, py_round (spec_category_debit txs c / spec_total_debit txs) 3))
                (spec_debit_categories txs)
         else []),
      income_and_spending_analysis =
        map (\<lambda>m. (m, \<lparr>income = spec_income txs m, spending = spec_spending txs m,
                      savings_rate = (spec_income txs m - spec_spending txs m)
                                     / (spec_income txs m + eps)\<rparr>))
          (spec_months txs),
      spending_stability = stability,
      behavioral_patterns =
        \<lparr>essential_spending_ratio = py_round
           (if 0 < spec_total_debit txs then spec_essential_debit txs / spec_total_debit txs else 0) 3,
         high_risk_spending_ratio = py_round
           (if 0 < spec_total_debit txs then spec_high_risk_debit txs / spec_total_debit txs else 0) 3,
         weekend_spending_ratio = py_round
           (if 0 < spec_total_debit txs then spec_weekend_debit txs / spec_total_debit txs else 0) 3\<rparr>\<rparr>"
    using behavioral_analysis_spec [OF assms(1,2)] unfolding assms(3) by blast
  then have p: "behavioral_patterns ba =
        \<lparr>essential_spending_ratio = py_round
           (if 0 < spec_total_debit txs then spec_essential_debit txs / spec_total_debit txs else 0) 3,
         high_risk_spending_ratio = py_round
           (if 0 < spec_total_debit txs then spec_high_risk_debit txs / spec_total_debit txs else 0) 3,
         weekend_spending_ratio = py_round
           (if 0 < spec_total_debit txs then spec_weekend_debit txs / spec_total_debit txs else 0) 3\<rparr>"
    by simp
  note b = spec_ratio_bounds [OF assms(2)]
  show "0 \<le> essential_spending_ratio (behavioral_patterns ba)"
    unfolding p spec_essential_debit_def by (simp only: BehavioralPatterns.simps) (rule py_round_nonneg [OF b(1)])
  show "essential_spending_ratio (behavioral_patterns ba) \<le> 1"
    unfolding p spec_essential_debit_def by (simp only: BehavioralPatterns.simps) (rule py_round_le_1 [OF b(2)])
  show "0 \<le> high_risk_spending_ratio (behavioral_patterns ba)"
    unfolding p spec_high_risk_debit_def by (simp only: BehavioralPatterns.simps) (rule py_round_nonneg [OF b(1)])
  show "high_risk_spending_ratio (behavioral_patterns ba) \<le> 1"
    unfolding p spec_high_risk_debit_def by (simp only: BehavioralPatterns.simps) (rule py_round_le_1 [OF b(2)])
  show "0 \<le> weekend_spending_ratio (behavioral_patterns ba)"
    unfolding p spec_weekend_debit_def by (simp only: BehavioralPatterns.simps) (rule py_round_nonneg [OF b(1)])
  show "weekend_spending_ratio (behavioral_patterns ba) \<le> 1"
    unfolding p spec_weekend_debit_def by (simp only: BehavioralPatterns.simps) (rule py_round_le_1 [OF b(2)])
qed

lemma calculate_risk_assessment_fields:
  assumes "calculate_risk_assessment df ba = Some ra"
  shows "risk_essential_spending ra =
           py_round (max 0 (50 - essential_spending_ratio (behavioral_patterns ba) * 50)) 1"
    and "high_risk_spending ra = py_round (high_risk_spending_ratio (behavioral_patterns ba) * 100) 1"
    and "weekend_spending ra =
           py_round (min (weekend_spending_ratio (behavioral_patterns ba) * 100) 50) 1"
  using assms unfolding calculate_risk_assessment_def Let_def
  by (auto split: Option.bind_splits)

subsection \<open>The result in terms of the transactions\<close>

lemma spec_months_set: "set (spec_months txs) = month_bucket ` set txs"
  by (simp add: spec_months_def)

lemma spec_months_nonempty: "txs \<noteq> [] \<Longrightarrow> spec_months txs \<noteq> []"
  using spec_months_set [of txs] by (cases txs) auto

lemma analyze_transactions_spec:
  assumes "txs \<noteq> []" and "nonneg_amounts txs"
  shows "\<exists>r s. analyze_transactions now txs = Some r
     \<and> financial_summary r =
       \<lparr>monthly_spendings = map (\<lambda>m. (m, spec_spending txs m)) (spec_months txs),
        monthly_savings =
          map (\<lambda>m. (m, max 0 (spec_income txs m - spec_spending txs m))) (spec_months txs),
        total_savings =
          sum_list (map (\<lambda>m. max 0 (spec_income txs m - spec_spending txs m)) (spec_months txs)),
        income_volatility = py_round (cv_value (spec_monthly_incomes txs)) 3,
        spending_volatility = py_round (cv_value (map (spec_spending txs) (spec_months txs))) 3,
        consistency_score =
          py_round (max 0 (1 - (cv_value (spec_monthly_incomes txs)
                                 + cv_value (map (spec_spending txs) (spec_months txs))) / 2)) 3,
        transaction_frequency = length txs\<rparr>
     \<and> calculate_behavioral_analysis (transactions_to_dataframe txs) = Some (behavioral_analysis r)
     \<and> spending_pattern_distribution (behavioral_analysis r) =
        (if 0 < spec_total_debit txs
         then map (\<lambda>c. (c, py_round (spec_category_debit txs c / spec_total_debit txs) 3))
                (spec_debit_categories txs)
         else [])
     \<and> income_and_spending_analysis (behavioral_analysis r) =
        map (\<lambda>m. (m, \<lparr>income = spec_income txs m, spending = spec_spending txs m,
                      savings_rate = (spec_income txs m - spec_spending txs m)
                                     / (spec_income txs m + eps)\<rparr>))
          (spec_months txs)
     \<and> behavioral_patterns (behavioral_analysis r) =
        \<lparr>essential_spending_ratio = py_round
           (if 0 < spec_total_debit txs then spec_essential_debit txs / spec_total_debit txs else 0) 3,
         high_risk_spending_ratio = py_round
           (if 0 < spec_total_debit txs then spec_high_risk_debit txs / spec_total_debit txs else 0) 3,
         weekend_spending_ratio = py_round
           (if 0 < spec_total_debit txs then spec_weekend_debit txs / spec_total_debit txs else 0) 3\<rparr>
     \<and> calculate_risk_assessment (transactions_to_dataframe txs) (behavioral_analysis r)
         = Some (risk_assessment_details r)
     \<and> calculate_overall_risk_score (financial_summary r) (behavioral_analysis r)
           (risk_assessment_details r) = Some s
     \<and> 0 \<le> s \<and> s \<le> 100
     \<and> overall_risk_score r = py_round s 1
     \<and> risk_category r = determine_risk_category s
     \<and> determine_loan_eligibility s (financial_summary r) (behavioral_analysis r)
         = Some (loan_eligibility r, eligibility_reason r)
     \<and> created_at r = now"
proof -
  obtain fs ba ra s e where
    fs: "calculate_financial_summary (transactions_to_dataframe txs) = Some fs"
    and ba: "calculate_behavioral_analysis (transactions_to_dataframe txs) = Some ba"
    and ra: "calculate_risk_assessment (transactions_to_dataframe txs) ba = Some ra"
    and s: "calculate_overall_risk_score fs ba ra = Some s"
    and e: "determine_loan_eligibility s fs ba = Some e"
    and isa: "income_and_spending_analysis ba \<noteq> []"
    and r: "analyze_transactions now txs = Some
          \<lparr>overall_risk_score = py_round s 1,
           risk_category = determine_risk_category s,
           loan_eligibility = fst e,
           eligibility_reason = snd e,
           financial_summary = fs,
           behavioral_analysis = ba,
           risk_assessment_details = ra,
           created_at = now\<rparr>"
    using analyze_transactions_Some [OF assms, of now] by blast
  note fs_eq = financial_summary_spec [OF assms, unfolded fs option.inject]
  obtain stability where ba_eq: "ba =
     \<lparr>spending_pattern_distribution =
        (if 0 < spec_total_debit txs
         then map (\<lambda>c. (c, py_round (spec_category_debit txs c / spec_total_debit txs) 3))
                (spec_debit_categories txs)
         else []),
      income_and_spending_analysis =
        map (\<lambda>m. (m, \<lparr>income = spec_income txs m, spending = spec_spending txs m,
                      savings_rate = (spec_income txs m - spec_spending txs m)
                                     / (spec_income txs m + eps)\<rparr>))
          (spec_months txs),
      spending_stability = stability,
      behavioral_patterns =
        \<lparr>essential_spending_ratio = py_round
           (if 0 < spec_total_debit txs then spec_essential_debit txs / spec_total_debit txs else 0) 3,
         high_risk_spending_ratio = py_round
           (if 0 < spec_total_debit txs then spec_high_risk_debit txs / spec_total_debit txs else 0) 3,
         weekend_spending_ratio = py_round
           (if 0 < spec_total_debit txs then spec_weekend_debit txs / spec_total_debit txs else 0) 3\<rparr>\<rparr>"
    using behavioral_analysis_spec [OF assms] unfolding ba option.inject by blast
  have sb: "0 \<le> s" "s \<le> 100"
    using calculate_overall_risk_score_Some [OF isa, of fs ra] s by auto
  have f1: "spending_pattern_distribution ba =
        (if 0 < spec_total_debit txs
         then map (\<lambda>c. (c, py_round (spec_category_debit txs c / spec_total_debit txs) 3))
                (spec_debit_categories txs)
         else [])"
    by (subst ba_eq) (simp only: BehavioralAnalysis.simps)
  have f2: "income_and_spending_analysis ba =
        map (\<lambda>m. (m, \<lparr>income = spec_income txs m, spending = spec_spending txs m,
                      savings_rate = (spec_income txs m - spec_spending txs m)
                                     / (spec_income txs m + eps)\<rparr>))
          (spec_months txs)"
    by (subst ba_eq) (simp only: BehavioralAnalysis.simps)
  have f3: "behavioral_patterns ba =
        \<lparr>essential_spending_ratio = py_round
           (if 0 < spec_total_debit txs then spec_essential_debit txs / spec_total_debit txs else 0) 3,
         high_risk_spending_ratio = py_round
           (if 0 < spec_total_debit txs then spec_high_risk_debit txs / spec_total_debit txs else 0) 3,
         weekend_spending_ratio = py_round
           (if 0 < spec_total_debit txs then spec_weekend_debit txs / spec_total_debit txs else 0) 3\<rparr>"
    by (subst ba_eq) (simp only: BehavioralAnalysis.simps)
  show ?thesis
    apply (rule exI [of _ "\<lparr>overall_risk_score = py_round s 1,
           risk_category = determine_risk_category s,
           loan_eligibility = fst e,
           eligibility_reason = snd e,
           financial_summary = fs,
           behavioral_analysis = ba,
           risk_assessment_details = ra,
           created_at = now\<rparr>"])
    apply (rule exI [of _ s])
    apply (simp only: MLAnalysisResult.simps r fs_eq [symmetric] ba ra s e sb f1 f2 f3 prod.collapse)
    done
qed

lemma calculate_behavioral_analysis_stability:
  assumes "calculate_behavioral_analysis df = Some ba"
  shows "determine_spending_stability df = Some (spending_stability ba)"
  using assms unfolding calculate_behavioral_analysis_def Let_def
  by (auto split: Option.bind_splits)

lemma determine_spending_stability_value:
  assumes "\<forall>r\<in>set df. 0 \<le> col_amount r"
  shows "determine_spending_stability df = Some (spec_stability_of
           (map snd (groupby_sum col_month (filter (\<lambda>r. col_type r = DEBIT) df))))"
proof -
  define ms where "ms = map snd (groupby_sum col_month (filter (\<lambda>r. col_type r = DEBIT) df))"
  have nn: "\<forall>x\<in>set ms. 0 \<le> x"
    unfolding ms_def by (rule groupby_sum_nonneg) (use assms in auto)
  show ?thesis
  proof (cases "length ms < 2")
    case True
    then show ?thesis
      unfolding determine_spending_stability_def Let_def spec_stability_of_def
      by (simp add: ms_def)
  next
    case False
    then have ne: "ms \<noteq> []" by auto
    show ?thesis using False
      unfolding determine_spending_stability_def Let_def spec_stability_of_def
      by (simp add: ms_def [symmetric] np_std_Some [OF ne] np_mean_Some [OF ne] np_cv_Some [OF nn])
  qed
qed

lemma groupby_month_debit_spec:
  "map snd (groupby_sum col_month (filter (\<lambda>r. col_type r = DEBIT) (transactions_to_dataframe txs)))
     = map (spec_spending txs) (spec_debit_months txs)"
proof -
  have "set (map col_month (filter (\<lambda>r. col_type r = DEBIT) (transactions_to_dataframe txs)))
      = set (map month_bucket (filter is_debit txs))"
    by (fastforce simp: dataframe_set col_month_to_row col_type_to_row is_debit_def image_iff)
  then have keys: "sort (remdups (map col_month
        (filter (\<lambda>r. col_type r = DEBIT) (transactions_to_dataframe txs))))
      = spec_debit_months txs"
    unfolding spec_debit_months_def by (rule sort_remdups_cong)
  have vals: "(\<lambda>k. sum_list (map col_amount (filter (\<lambda>r. col_month r = k)
        (filter (\<lambda>r. col_type r = DEBIT) (transactions_to_dataframe txs)))))
      = spec_spending txs"
    unfolding debit_sum_spec
    by (rule ext) (simp add: col_month_to_row spec_spending_def conj_commute)
  show ?thesis unfolding groupby_sum_snd keys vals ..
qed

lemma spending_stability_spec:
  assumes "nonneg_amounts txs"
    and "calculate_behavioral_analysis (transactions_to_dataframe txs) = Some ba"
  shows "spending_stability ba = spec_stability txs"
proof -
  have nn: "\<forall>r\<in>set (transactions_to_dataframe txs). 0 \<le> col_amount r"
    using assms(1) by (intro dataframe_nonneg) (simp add: nonneg_amounts_def)
  show ?thesis
    using calculate_behavioral_analysis_stability [OF assms(2)]
    unfolding determine_spending_stability_value [OF nn] groupby_month_debit_spec spec_stability_def
    by simp
qed

lemma spec_income_nonneg: "nonneg_amounts txs \<Longrightarrow> 0 \<le> spec_income txs m"
  unfolding spec_income_def by (rule spec_nonneg)

lemma spec_total_debit_nonneg: "nonneg_amounts txs \<Longrightarrow> 0 \<le> spec_total_debit txs"
  unfolding spec_total_debit_def by (rule spec_nonneg)

lemma sum_list_divide_const:
  fixes f :: "'a \<Rightarrow> real"
  shows "sum_list (map (\<lambda>x. f x / c) xs) = sum_list (map f xs) / c"
  by (induction xs) (simp_all add: add_divide_distrib)

lemma sum_list_abs_diff_bound:
  fixes f g :: "'a \<Rightarrow> real"
  assumes "\<forall>x\<in>set xs. \<bar>f x - g x\<bar> \<le> b"
  shows "\<bar>sum_list (map f xs) - sum_list (map g xs)\<bar> \<le> real (length xs) * b"
  using assms
proof (induction xs)
  case Nil
  then show ?case by simp
next
  case (Cons x xs)
  have "\<bar>f x - g x\<bar> \<le> b" using Cons.prems by simp
  moreover have "\<bar>sum_list (map f xs) - sum_list (map g xs)\<bar> \<le> real (length xs) * b"
    using Cons by simp
  ultimately show ?case by (simp add: algebra_simps abs_le_iff)
qed

lemma spec_category_total:
  "sum_list (map (spec_category_debit txs) (spec_debit_categories txs)) = spec_total_debit txs"
proof -
  have eq: "spec_category_debit txs
      = (\<lambda>c. sum_list (map amount (filter (\<lambda>t. category_normalized t = c) (filter is_debit txs))))"
    by (rule ext) (simp add: spec_category_debit_def conj_commute)
  have "sum_list (map (\<lambda>c. sum_list (map amount
            (filter (\<lambda>t. category_normalized t = c) (filter is_debit txs))))
          (spec_debit_categories txs))
      = sum_list (map amount (filter is_debit txs))"
    unfolding spec_debit_categories_def by (rule sum_list_group) auto
  then show ?thesis unfolding eq spec_total_debit_def .
qed

lemma spec_fractions_sum:
  assumes "0 < spec_total_debit txs"
  shows "\<bar>sum_list (map (\<lambda>c. py_round (spec_category_debit txs c / spec_total_debit txs) 3)
             (spec_debit_categories txs)) - 1\<bar>
         \<le> real (length (spec_debit_categories txs)) / 2000"
proof -
  have one: "sum_list (map (\<lambda>c. spec_category_debit txs c / spec_total_debit txs)
      (spec_debit_categories txs)) = 1"
    using assms by (simp add: sum_list_divide_const spec_category_total)
  have "\<bar>sum_list (map (\<lambda>c. py_round (spec_category_debit txs c / spec_total_debit txs) 3)
             (spec_debit_categories txs))
        - sum_list (map (\<lambda>c. spec_category_debit txs c / spec_total_debit txs)
             (spec_debit_categories txs))\<bar>
      \<le> real (length (spec_debit_categories txs)) * (1 / 2000)"
    by (rule sum_list_abs_diff_bound) (rule ballI, rule py_round_3_err)
  then show ?thesis unfolding one by simp
qed

lemma spec_fraction_bounds:
  assumes "nonneg_amounts txs" and "0 < spec_total_debit txs"
  shows "0 \<le> py_round (spec_category_debit txs c / spec_total_debit txs) 3"
    and "py_round (spec_category_debit txs c / spec_total_debit txs) 3 \<le> 1"
proof -
  note b = spec_ratio_bounds [OF assms(1), of "\<lambda>t. category_normalized t = c"]
  have q: "0 \<le> spec_category_debit txs c / spec_total_debit txs"
    "spec_category_debit txs c / spec_total_debit txs \<le> 1"
    using b assms(2) by (simp_all add: spec_category_debit_def)
  show "0 \<le> py_round (spec_category_debit txs c / spec_total_debit txs) 3"
    by (rule py_round_nonneg [OF q(1)])
  show "py_round (spec_category_debit txs c / spec_total_debit txs) 3 \<le> 1"
    by (rule py_round_le_1 [OF q(2)])
qed

lemma calculate_overall_risk_score_bounds:
  assumes "calculate_overall_risk_score fs ba ra = Some s"
  shows "0 \<le> s" and "s \<le> 100"
  using assms unfolding calculate_overall_risk_score_def Let_def
  by (auto split: Option.bind_splits)

lemma overall_risk_score_clamped:
  assumes "analyze_transactions now transactions = Some r"
  shows "0 \<le> overall_risk_score r \<and> overall_risk_score r \<le> 100"
proof (cases "transactions = []")
  case True
  then show ?thesis using assms
    by (auto simp: analyze_transactions_def generate_empty_result_def)
next
  case False
  then obtain fs ba ra s where s: "calculate_overall_risk_score fs ba ra = Some s"
    and r: "overall_risk_score r = py_round s 1"
    using assms unfolding analyze_transactions_def Let_def
    by (auto split: Option.bind_splits prod.splits)
  note b = calculate_overall_risk_score_bounds [OF s]
  show ?thesis unfolding r
    by (rule conjI, rule py_round_nonneg [OF b(1)], rule py_round_1_le_100 [OF b(2)])
qed

lemma py_round_1_gt_75: "75 < py_round s 1 \<Longrightarrow> 75 < s"
proof (rule ccontr)
  assume a: "75 < py_round s 1" and "\<not> 75 < s"
  then have "s * 10 ^ 1 \<le> of_int 750" by simp
  from py_round_le [OF this] show False using a by simp
qed

subsection \<open>Values on the example inputs\<close>

lemma std_value_pair: "std_value [a, b] = \<bar>a - b\<bar> / 2"
proof -
  have "(a - (a + b) / 2)\<^sup>2 + (b - (a + b) / 2)\<^sup>2 = 2 * ((a - b) / 2)\<^sup>2"
    by (simp add: power2_eq_square field_simps)
  then have "std_value [a, b] = sqrt (((a - b) / 2)\<^sup>2)"
    by (simp add: std_value_def mean_value_def)
  then show ?thesis by simp
qed

lemma mean_value_pair: "mean_value [a, b] = (a + b) / 2"
  by (simp add: mean_value_def)

lemma cv_value_single: "cv_value [x] = 0"
  by (simp add: cv_value_def std_value_def mean_value_def)

lemma py_round_unit: "py_round 1 3 = 1"
  by (simp add: py_round_def round_half_even_def)

lemma py_round_examples:
  "py_round (1 / 3) 3 = 333 / 1000" "py_round (2 / 3) 3 = 667 / 1000"
  by (simp_all add: py_round_def round_half_even_def)

lemma example_txn_fields:
  "amount (example_txn d a t c) = a"
  "is_debit (example_txn d a t c) = (t = DEBIT)"
  "is_credit (example_txn d a t c) = (t = CREDIT)"
  "month_bucket (example_txn d a t c) = strftime_Y_m d"
  "category_normalized (example_txn d a t c) = lower c"
  "is_weekend (example_txn d a t c) = (weekday d = 5 \<or> weekday d = 6)"
  by (simp_all add: example_txn_def is_debit_def is_credit_def month_bucket_def
      category_normalized_def is_weekend_def)

lemma example_weekdays:
  "weekday example_saturday = 5" "weekday example_monday = 0"
  "weekday example_tuesday = 1" "weekday example_february = 0"
  by (simp_all add: weekday_def toordinal_def days_before_year_def days_before_month_def
      is_leap_def example_saturday_def example_monday_def example_tuesday_def
      example_february_def)

lemma example_months:
  "strftime_Y_m example_saturday = ''2024-01''" "strftime_Y_m example_monday = ''2024-01''"
  "strftime_Y_m example_tuesday = ''2024-01''" "strftime_Y_m example_february = ''2024-02''"
  by (simp_all add: strftime_Y_m_def digit_char_def example_saturday_def example_monday_def
      example_tuesday_def example_february_def)

lemma example_categories:
  "lower ''Gambling'' = ''gambling''" "lower ''Groceries'' = ''groceries''"
  "lower ''Shopping'' = ''shopping''" "lower ''Salary'' = ''salary''" "lower ''Rent'' = ''rent''"
  by (simp_all add: lower_def lower_char_def)

lemmas example_simps = example_txn_fields example_weekdays example_months example_categories

lemmas spec_sum_defs =
  spec_months_def spec_income_def spec_spending_def spec_monthly_incomes_def
  spec_total_debit_def spec_essential_debit_def spec_high_risk_debit_def
  spec_weekend_debit_def spec_category_debit_def spec_debit_categories_def
  essential_categories_def high_risk_categories_def

lemma example_gambling_spec:
  "spec_total_debit example_gambling = 100"
  "spec_essential_debit example_gambling = 0"
  "spec_high_risk_debit example_gambling = 100"
  "spec_weekend_debit example_gambling = 100"
  "spec_months example_gambling = [''2024-01'']"
  "spec_income example_gambling ''2024-01'' = 0"
  "spec_spending example_gambling ''2024-01'' = 100"
  "length example_gambling = 1"
  by (simp_all add: example_gambling_def spec_sum_defs example_simps)

lemma example_thirds_spec:
  "spec_total_debit example_thirds = 3"
  "spec_essential_debit example_thirds = 1"
  "spec_high_risk_debit example_thirds = 0"
  "spec_weekend_debit example_thirds = 0"
  "spec_debit_categories example_thirds = [''groceries'', ''shopping'']"
  "spec_category_debit example_thirds ''groceries'' = 1"
  "spec_category_debit example_thirds ''shopping'' = 2"
  by (simp_all add: example_thirds_def spec_sum_defs example_simps)

lemma example_overspend_spec:
  "spec_months example_overspend = [''2024-01'']"
  "spec_income example_overspend ''2024-01'' = 50"
  "spec_spending example_overspend ''2024-01'' = 100"
  by (simp_all add: example_overspend_def spec_sum_defs example_simps)

lemma example_two_months_spec:
  "spec_total_debit example_two_months = 0"
  "spec_months example_two_months = [''2024-01'', ''2024-02'']"
  "spec_income example_two_months ''2024-01'' = 3"
  "spec_income example_two_months ''2024-02'' = 5"
  by (simp_all add: example_two_months_def spec_sum_defs example_simps)

lemma example_fallback_spec:
  "example_fallback \<noteq> []" "nonneg_amounts example_fallback"
  "spec_total_debit example_fallback = 4"
  "spec_essential_debit example_fallback = 0"
  "spec_high_risk_debit example_fallback = 4"
  "spec_months example_fallback = [''2024-01'', ''2024-02'']"
  "spec_debit_months example_fallback = [''2024-01'', ''2024-02'']"
  "spec_income example_fallback ''2024-01'' = 1"
  "spec_income example_fallback ''2024-02'' = 3"
  "spec_spending example_fallback ''2024-01'' = 1"
  "spec_spending example_fallback ''2024-02'' = 3"
  by (simp_all add: example_fallback_def spec_sum_defs spec_debit_months_def nonneg_amounts_def
      example_simps)

lemma example_threshold_spec:
  "example_threshold \<noteq> []" "nonneg_amounts example_threshold"
  "length example_threshold = 6"
  "spec_total_debit example_threshold = 4000"
  "spec_essential_debit example_threshold = 1200"
  "spec_high_risk_debit example_threshold = 68"
  "spec_weekend_debit example_threshold = 0"
  "spec_months example_threshold = [''2024-01'', ''2024-02'']"
  "spec_income example_threshold ''2024-01'' = 10000"
  "spec_income example_threshold ''2024-02'' = 30000"
  "spec_spending example_threshold ''2024-01'' = 1000"
  "spec_spending example_threshold ''2024-02'' = 3000"
  by (simp_all add: example_threshold_def spec_sum_defs nonneg_amounts_def example_simps)

lemma cv_value_pair: "cv_value [a, b] = (\<bar>a - b\<bar> / 2) / ((a + b) / 2 + eps)"
  by (simp add: cv_value_def std_value_pair mean_value_pair)

lemma example_threshold_rounding:
  "py_round (cv_value [10000, 30000]) 3 = 1 / 2"
  "py_round (cv_value [1000, 3000]) 3 = 1 / 2"
  "py_round (max 0 (1 - (cv_value [10000, 30000] + cv_value [1000, 3000]) / 2)) 3 = 1 / 2"
  "py_round (3 / 10) 3 = 3 / 10"
  "py_round (17 / 1000) 3 = 17 / 1000"
  "py_round (7501 / 100) 1 = 75"
  by (simp_all add: cv_value_pair eps_def py_round_def round_half_even_def)




lemma example_nonneg:
  "example_gambling \<noteq> []" "nonneg_amounts example_gambling"
  "example_thirds \<noteq> []" "nonneg_amounts example_thirds"
  "example_overspend \<noteq> []" "nonneg_amounts example_overspend"
  "example_two_months \<noteq> []" "nonneg_amounts example_two_months"
  by (simp_all add: example_gambling_def example_thirds_def example_overspend_def
      example_two_months_def nonneg_amounts_def example_simps)

section \<open>The claims\<close>

text \<open>Claim C1. Whenever \<open>analyze_transactions\<close> returns a result, its \<open>overall_risk_score\<close>
  lies in [0, 100]. For every non-empty list of transactions with the non-negative amounts
  of the data model it returns a result, whose risk sub-scores lie within their bounds:
  \<open>risk_essential_spending\<close> in [0, 50], \<open>high_risk_spending\<close> in [0, 100],
  \<open>weekend_spending\<close> in [0, 50].\<close>

theorem risk_scores_within_bounds:
  "(\<forall>r. analyze_transactions now transactions = Some r \<longrightarrow>
        0 \<le> overall_risk_score r \<and> overall_risk_score r \<le> 100)
   \<and> (transactions \<noteq> [] \<and> nonneg_amounts transactions \<longrightarrow>
        (\<exists>r. analyze_transactions now transactions = Some r
           \<and> 0 \<le> overall_risk_score r \<and> overall_risk_score r \<le> 100
           \<and> 0 \<le> risk_essential_spending (risk_assessment_details r)
           \<and> risk_essential_spending (risk_assessment_details r) \<le> 50
           \<and> 0 \<le> high_risk_spending (risk_assessment_details r)
           \<and> high_risk_spending (risk_assessment_details r) \<le> 100
           \<and> 0 \<le> weekend_spending (risk_assessment_details r)
           \<and> weekend_spending (risk_assessment_details r) \<le> 50))"
proof (intro conjI allI impI)
  fix r
  assume "analyze_transactions now transactions = Some r"
  from overall_risk_score_clamped [OF this]
  show "0 \<le> overall_risk_score r" and "overall_risk_score r \<le> 100" by simp_all
next
  assume "transactions \<noteq> [] \<and> nonneg_amounts transactions"
  then have assms: "transactions \<noteq> []" "nonneg_amounts transactions" by simp_all
  obtain r s where r: "analyze_transactions now transactions = Some r"
    and ba: "calculate_behavioral_analysis (transactions_to_dataframe transactions)
               = Some (behavioral_analysis r)"
    and ra: "calculate_risk_assessment (transactions_to_dataframe transactions)
               (behavioral_analysis r) = Some (risk_assessment_details r)"
    and s: "0 \<le> s" "s \<le> 100" "overall_risk_score r = py_round s 1"
    using analyze_transactions_spec [OF assms, of now] by blast
  note p = behavioral_patterns_bounds [OF assms ba]
  note f = calculate_risk_assessment_fields [OF ra]
  have score: "0 \<le> overall_risk_score r" "overall_risk_score r \<le> 100"
    unfolding s(3) by (rule py_round_nonneg [OF s(1)], rule py_round_1_le_100 [OF s(2)])
  have b1: "0 \<le> max 0 (50 - essential_spending_ratio (behavioral_patterns (behavioral_analysis r)) * 50)"
    "max 0 (50 - essential_spending_ratio (behavioral_patterns (behavioral_analysis r)) * 50) \<le> 50"
    using p(1) by simp_all
  have e: "0 \<le> risk_essential_spending (risk_assessment_details r)"
    "risk_essential_spending (risk_assessment_details r) \<le> 50"
    unfolding f(1) by (rule py_round_nonneg [OF b1(1)], rule py_round_1_le_50 [OF b1(2)])
  have b2: "0 \<le> high_risk_spending_ratio (behavioral_patterns (behavioral_analysis r)) * 100"
    "high_risk_spending_ratio (behavioral_patterns (behavioral_analysis r)) * 100 \<le> 100"
    using p(3,4) by simp_all
  have h: "0 \<le> high_risk_spending (risk_assessment_details r)"
    "high_risk_spending (risk_assessment_details r) \<le> 100"
    unfolding f(2) by (rule py_round_nonneg [OF b2(1)], rule py_round_1_le_100 [OF b2(2)])
  have b3: "0 \<le> min (weekend_spending_ratio (behavioral_patterns (behavioral_analysis r)) * 100) 50"
    "min (weekend_spending_ratio (behavioral_patterns (behavioral_analysis r)) * 100) 50 \<le> 50"
    using p(5) by simp_all
  have w: "0 \<le> weekend_spending (risk_assessment_details r)"
    "weekend_spending (risk_assessment_details r) \<le> 50"
    unfolding f(3) by (rule py_round_nonneg [OF b3(1)], rule py_round_1_le_50 [OF b3(2)])
  show "\<exists>r. analyze_transactions now transactions = Some r
           \<and> 0 \<le> overall_risk_score r \<and> overall_risk_score r \<le> 100
           \<and> 0 \<le> risk_essential_spending (risk_assessment_details r)
           \<and> risk_essential_spending (risk_assessment_details r) \<le> 50
           \<and> 0 \<le> high_risk_spending (risk_assessment_details r)
           \<and> high_risk_spending (risk_assessment_details r) \<le> 100
           \<and> 0 \<le> weekend_spending (risk_assessment_details r)
           \<and> weekend_spending (risk_assessment_details r) \<le> 50"
    using r score e h w by blast
qed

theorem risk_scores_within_bounds_witness:
  "example_gambling \<noteq> [] \<and> nonneg_amounts example_gambling
   \<and> (\<exists>r. analyze_transactions example_now example_gambling = Some r
     \<and> 0 \<le> overall_risk_score r \<and> overall_risk_score r \<le> 100
     \<and> 0 \<le> risk_essential_spending (risk_assessment_details r)
     \<and> risk_essential_spending (risk_assessment_details r) \<le> 50
     \<and> 0 \<le> high_risk_spending (risk_assessment_details r)
     \<and> high_risk_spending (risk_assessment_details r) \<le> 100
     \<and> 0 \<le> weekend_spending (risk_assessment_details r)
     \<and> weekend_spending (risk_assessment_details r) \<le> 50)"
  using example_nonneg(1,2) risk_scores_within_bounds [of example_now example_gambling]
  by blast

text \<open>Claim C2. On the empty list, \<open>analyze_transactions\<close> runs no stage and returns the fixed
  result: score 50, category medium, not eligible, the reason
  ``Insufficient transaction history for assessment'', transaction frequency 0, empty
  monthly mappings and category distribution, all summary numbers and ratios 0, stability
  Medium, and the single factor ``Insufficient data''.\<close>

theorem empty_input_sentinel:
  "\<exists>r. analyze_transactions now [] = Some r
     \<and> overall_risk_score r = 50
     \<and> risk_category r = RISK_MEDIUM
     \<and> loan_eligibility r = False
     \<and> eligibility_reason r = ''Insufficient transaction history for assessment''
     \<and> transaction_frequency (financial_summary r) = 0
     \<and> monthly_spendings (financial_summary r) = []
     \<and> monthly_savings (financial_summary r) = []
     \<and> total_savings (financial_summary r) = 0
     \<and> income_volatility (financial_summary r) = 0
     \<and> spending_volatility (financial_summary r) = 0
     \<and> consistency_score (financial_summary r) = 0
     \<and> spending_pattern_distribution (behavioral_analysis r) = []
     \<and> income_and_spending_analysis (behavioral_analysis r) = []
     \<and> spending_stability (behavioral_analysis r) = STABILITY_MEDIUM
     \<and> essential_spending_ratio (behavioral_patterns (behavioral_analysis r)) = 0
     \<and> high_risk_spending_ratio (behavioral_patterns (behavioral_analysis r)) = 0
     \<and> weekend_spending_ratio (behavioral_patterns (behavioral_analysis r)) = 0
     \<and> loan_eligibility_factors (risk_assessment_details r) = [''Insufficient data'']
     \<and> created_at r = now"
  by (simp add: analyze_transactions_def generate_empty_result_def)

text \<open>Claim C3, as stated, fails. On six transactions in two months the score before rounding
  is 75.01 and the returned \<open>overall_risk_score\<close> is 75, the essential ratio is 0.3, the
  high-risk ratio 0.017, the average savings rate about 0.9 and the consistency score 0.5.
  No rule of the cascade matches these returned values, yet the result is not eligible,
  with the reason of rule 1: the rule tests the score before it is rounded.\<close>

theorem loan_eligibility_rounded_score_counterexample:
  "map_option overall_risk_score (analyze_transactions example_now example_threshold) = Some 75
   \<and> map_option (essential_spending_ratio \<circ> behavioral_patterns \<circ> behavioral_analysis)
        (analyze_transactions example_now example_threshold) = Some (3 / 10)
   \<and> map_option (high_risk_spending_ratio \<circ> behavioral_patterns \<circ> behavioral_analysis)
        (analyze_transactions example_now example_threshold) = Some (17 / 1000)
   \<and> map_option (map (savings_rate \<circ> snd) \<circ> income_and_spending_analysis \<circ> behavioral_analysis)
        (analyze_transactions example_now example_threshold)
       = Some [9000 / (10000 + eps), 27000 / (30000 + eps)]
   \<and> map_option (consistency_score \<circ> financial_summary)
        (analyze_transactions example_now example_threshold) = Some (1 / 2)
   \<and> spec_first_match (spec_rejection_rules 75 (3 / 10) (17 / 1000)
        (mean_value [9000 / (10000 + eps), 27000 / (30000 + eps)]) (1 / 2)) = None
   \<and> map_option loan_eligibility (analyze_transactions example_now example_threshold)
       = Some False
   \<and> map_option eligibility_reason (analyze_transactions example_now example_threshold)
       = Some ''High risk profile with significant financial volatility''"
proof -
  obtain r s where r: "analyze_transactions example_now example_threshold = Some r"
    and fs: "financial_summary r =
       \<lparr>monthly_spendings = map (\<lambda>m. (m, spec_spending example_threshold m)) (spec_months example_threshold),
        monthly_savings =
          map (\<lambda>m. (m, max 0 (spec_income example_threshold m - spec_spending example_threshold m)))
            (spec_months example_threshold),
        total_savings =
          sum_list (map (\<lambda>m. max 0 (spec_income example_threshold m - spec_spending example_threshold m))
            (spec_months example_threshold)),
        income_volatility = py_round (cv_value (spec_monthly_incomes example_threshold)) 3,
        spending_volatility =
          py_round (cv_value (map (spec_spending example_threshold) (spec_months example_threshold))) 3,
        consistency_score =
          py_round (max 0 (1 - (cv_value (spec_monthly_incomes example_threshold)
                + cv_value (map (spec_spending example_threshold) (spec_months example_threshold))) / 2)) 3,
        transaction_frequency = length example_threshold\<rparr>"
    and isa: "income_and_spending_analysis (behavioral_analysis r) =
        map (\<lambda>m. (m, \<lparr>income = spec_income example_threshold m,
                      spending = spec_spending example_threshold m,
                      savings_rate = (spec_income example_threshold m - spec_spending example_threshold m)
                                     / (spec_income example_threshold m + eps)\<rparr>))
          (spec_months example_threshold)"
    and p: "behavioral_patterns (behavioral_analysis r) =
        \<lparr>essential_spending_ratio = py_round
           (if 0 < spec_total_debit example_threshold
            then spec_essential_debit example_threshold / spec_total_debit example_threshold else 0) 3,
         high_risk_spending_ratio = py_round
           (if 0 < spec_total_debit example_threshold
            then spec_high_risk_debit example_threshold / spec_total_debit example_threshold else 0) 3,
         weekend_spending_ratio = py_round
           (if 0 < spec_total_debit example_threshold
            then spec_weekend_debit example_threshold / spec_total_debit example_threshold else 0) 3\<rparr>"
    and s: "calculate_overall_risk_score (financial_summary r) (behavioral_analysis r)
           (risk_assessment_details r) = Some s"
      "overall_risk_score r = py_round s 1"
    and e: "determine_loan_eligibility s (financial_summary r) (behavioral_analysis r)
         = Some (loan_eligibility r, eligibility_reason r)"
    using analyze_transactions_spec [OF example_threshold_spec(1,2), of example_now] by blast
  have fs': "income_volatility (financial_summary r) = 1 / 2"
    "spending_volatility (financial_summary r) = 1 / 2"
    "consistency_score (financial_summary r) = 1 / 2"
    "transaction_frequency (financial_summary r) = 6"
    unfolding fs
    by (simp_all add: example_threshold_spec spec_monthly_incomes_def example_threshold_rounding)
  have isa': "income_and_spending_analysis (behavioral_analysis r) =
      [(''2024-01'', \<lparr>income = 10000, spending = 1000, savings_rate = 9000 / (10000 + eps)\<rparr>),
       (''2024-02'', \<lparr>income = 30000, spending = 3000, savings_rate = 27000 / (30000 + eps)\<rparr>)]"
    unfolding isa by (simp add: example_threshold_spec)
  have p': "essential_spending_ratio (behavioral_patterns (behavioral_analysis r)) = 3 / 10"
    "high_risk_spending_ratio (behavioral_patterns (behavioral_analysis r)) = 17 / 1000"
    "weekend_spending_ratio (behavioral_patterns (behavioral_analysis r)) = 0"
    unfolding p by (simp_all add: example_threshold_spec example_threshold_rounding py_round_0)
  have sv: "s = 7501 / 100"
    using s(1) unfolding calculate_overall_risk_score_def Let_def fs' isa' p'
    by (simp add: np_mean_def np_div_def eps_def)
  have score: "overall_risk_score r = 75"
    unfolding s(2) sv by (rule example_threshold_rounding(6))
  have el: "loan_eligibility r = False"
    "eligibility_reason r = ''High risk profile with significant financial volatility''"
    using e unfolding determine_loan_eligibility_def sv by simp_all
  have none: "spec_first_match (spec_rejection_rules 75 (3 / 10) (17 / 1000)
        (mean_value [9000 / (10000 + eps), 27000 / (30000 + eps)]) (1 / 2)) = None"
    by (simp add: spec_first_match_def spec_rejection_rules_def mean_value_def eps_def)
  show ?thesis
    using none by (simp add: r score el fs' p' isa')
qed

text \<open>Claim C3, amended. For every non-empty list of transactions (with non-negative amounts),
  loan eligibility is decided by the rejection rules in the order (1) overall risk score,
  before its rounding to one decimal, above 75, (2) essential ratio below 0.3, (3) high-risk
  ratio above 0.25, (4) average savings rate below -0.1, (5) consistency score below 0.3:
  the result is not eligible with the reason of the first rule that matches, and eligible
  when none matches. In particular, when rules 1 and 2 both hold, the reason is the one of
  rule 1. The score that rule 1 tests is the value \<open>s\<close> returned by
  \<open>calculate_overall_risk_score\<close>, which the result reports rounded to one decimal; a
  reported score above 75 implies that rule 1 matches. The ratios and the consistency score
  are the fields of the result, and the average savings rate is the mean of the monthly
  savings rates of the result.\<close>

theorem loan_eligibility_cascade:
  assumes "transactions \<noteq> []" and "nonneg_amounts transactions"
  shows "\<exists>r s. analyze_transactions now transactions = Some r
     \<and> calculate_overall_risk_score (financial_summary r) (behavioral_analysis r)
           (risk_assessment_details r) = Some s
     \<and> overall_risk_score r = py_round s 1
     \<and> (case spec_first_match (spec_rejection_rules s
               (essential_spending_ratio (behavioral_patterns (behavioral_analysis r)))
               (high_risk_spending_ratio (behavioral_patterns (behavioral_analysis r)))
               (mean_value (map (\<lambda>item. savings_rate (snd item))
                  (income_and_spending_analysis (behavioral_analysis r))))
               (consistency_score (financial_summary r))) of
          Some reason \<Rightarrow> loan_eligibility r = False \<and> eligibility_reason r = reason
        | None \<Rightarrow> loan_eligibility r = True)
     \<and> (75 < s \<and> essential_spending_ratio (behavioral_patterns (behavioral_analysis r)) < 0.3
          \<longrightarrow> loan_eligibility r = False
              \<and> eligibility_reason r = ''High risk profile with significant financial volatility'')
     \<and> (75 < overall_risk_score r
          \<longrightarrow> loan_eligibility r = False
              \<and> eligibility_reason r = ''High risk profile with significant financial volatility'')"
proof -
  obtain r s where r: "analyze_transactions now transactions = Some r"
    and isa: "income_and_spending_analysis (behavioral_analysis r) =
        map (\<lambda>m. (m, \<lparr>income = spec_income transactions m, spending = spec_spending transactions m,
                      savings_rate = (spec_income transactions m - spec_spending transactions m)
                                     / (spec_income transactions m + eps)\<rparr>))
          (spec_months transactions)"
    and s: "calculate_overall_risk_score (financial_summary r) (behavioral_analysis r)
           (risk_assessment_details r) = Some s"
      "overall_risk_score r = py_round s 1"
    and e: "determine_loan_eligibility s (financial_summary r) (behavioral_analysis r)
         = Some (loan_eligibility r, eligibility_reason r)"
    using analyze_transactions_spec [OF assms, of now] by blast
  have ne: "income_and_spending_analysis (behavioral_analysis r) \<noteq> []"
    unfolding isa using spec_months_nonempty [OF assms(1)] by simp
  note closed = determine_loan_eligibility_Some [OF ne, of s "financial_summary r",
      unfolded e option.inject]
  have cascade: "case spec_first_match (spec_rejection_rules s
               (essential_spending_ratio (behavioral_patterns (behavioral_analysis r)))
               (high_risk_spending_ratio (behavioral_patterns (behavioral_analysis r)))
               (mean_value (map (\<lambda>item. savings_rate (snd item))
                  (income_and_spending_analysis (behavioral_analysis r))))
               (consistency_score (financial_summary r))) of
          Some reason \<Rightarrow> loan_eligibility r = False \<and> eligibility_reason r = reason
        | None \<Rightarrow> loan_eligibility r = True"
    using closed unfolding spec_first_match_def spec_rejection_rules_def
    by (simp split: if_splits)
  have both: "75 < s \<Longrightarrow> loan_eligibility r = False
              \<and> eligibility_reason r = ''High risk profile with significant financial volatility''"
    using closed by simp
  have reported: "75 < overall_risk_score r \<Longrightarrow> loan_eligibility r = False
              \<and> eligibility_reason r = ''High risk profile with significant financial volatility''"
    unfolding s(2) by (rule both, rule py_round_1_gt_75)
  show ?thesis using r s cascade both reported by blast
qed

theorem loan_eligibility_cascade_witness:
  "example_gambling \<noteq> [] \<and> nonneg_amounts example_gambling
   \<and> (\<exists>r. analyze_transactions example_now example_gambling = Some r
        \<and> calculate_overall_risk_score (financial_summary r) (behavioral_analysis r)
             (risk_assessment_details r) = Some 100
        \<and> essential_spending_ratio (behavioral_patterns (behavioral_analysis r)) = 0
        \<and> loan_eligibility r = False
        \<and> eligibility_reason r = ''High risk profile with significant financial volatility'')"
proof -
  obtain r s where r: "analyze_transactions example_now example_gambling = Some r"
    and s: "calculate_overall_risk_score (financial_summary r) (behavioral_analysis r)
             (risk_assessment_details r) = Some s"
    and both: "75 < s \<and> essential_spending_ratio (behavioral_patterns (behavioral_analysis r)) < 0.3
          \<longrightarrow> loan_eligibility r = False
              \<and> eligibility_reason r = ''High risk profile with significant financial volatility''"
    using loan_eligibility_cascade [OF example_nonneg(1,2), of example_now] by blast
  obtain r' where r': "analyze_transactions example_now example_gambling = Some r'"
    and fs: "financial_summary r' =
       \<lparr>monthly_spendings = map (\<lambda>m. (m, spec_spending example_gambling m)) (spec_months example_gambling),
        monthly_savings =
          map (\<lambda>m. (m, max 0 (spec_income example_gambling m - spec_spending example_gambling m)))
            (spec_months example_gambling),
        total_savings =
          sum_list (map (\<lambda>m. max 0 (spec_income example_gambling m - spec_spending example_gambling m))
            (spec_months example_gambling)),
        income_volatility = py_round (cv_value (spec_monthly_incomes example_gambling)) 3,
        spending_volatility =
          py_round (cv_value (map (spec_spending example_gambling) (spec_months example_gambling))) 3,
        consistency_score =
          py_round (max 0 (1 - (cv_value (spec_monthly_incomes example_gambling)
                + cv_value (map (spec_spending example_gambling) (spec_months example_gambling))) / 2)) 3,
        transaction_frequency = length example_gambling\<rparr>"
    and isa: "income_and_spending_analysis (behavioral_analysis r') =
        map (\<lambda>m. (m, \<lparr>income = spec_income example_gambling m,
                      spending = spec_spending example_gambling m,
                      savings_rate = (spec_income example_gambling m - spec_spending example_gambling m)
                                     / (spec_income example_gambling m + eps)\<rparr>))
          (spec_months example_gambling)"
    and p: "behavioral_patterns (behavioral_analysis r') =
        \<lparr>essential_spending_ratio = py_round
           (if 0 < spec_total_debit example_gambling
            then spec_essential_debit example_gambling / spec_total_debit example_gambling else 0) 3,
         high_risk_spending_ratio = py_round
           (if 0 < spec_total_debit example_gambling
            then spec_high_risk_debit example_gambling / spec_total_debit example_gambling else 0) 3,
         weekend_spending_ratio = py_round
           (if 0 < spec_total_debit example_gambling
            then spec_weekend_debit example_gambling / spec_total_debit example_gambling else 0) 3\<rparr>"
    using analyze_transactions_spec [OF example_nonneg(1,2), of example_now] by blast
  have same: "r' = r" using r r' by simp
  have fs': "financial_summary r =
       \<lparr>monthly_spendings = [(''2024-01'', 100)], monthly_savings = [(''2024-01'', 0)],
        total_savings = 0, income_volatility = 0, spending_volatility = 0,
        consistency_score = 1, transaction_frequency = 1\<rparr>"
    using fs unfolding same
    by (simp add: example_gambling_spec spec_monthly_incomes_def cv_value_single py_round_0
        py_round_unit)
  have isa': "income_and_spending_analysis (behavioral_analysis r) =
      [(''2024-01'', \<lparr>income = 0, spending = 100, savings_rate = - 100000000\<rparr>)]"
    using isa unfolding same by (simp add: example_gambling_spec eps_def)
  have p': "behavioral_patterns (behavioral_analysis r) =
      \<lparr>essential_spending_ratio = 0, high_risk_spending_ratio = 1, weekend_spending_ratio = 1\<rparr>"
    using p unfolding same by (simp add: example_gambling_spec py_round_0 py_round_unit)
  have "s = 100"
    using s unfolding calculate_overall_risk_score_def Let_def fs' isa' p'
    by (simp add: np_mean_def np_div_def)
  then show ?thesis using r s both p' by (simp add: example_nonneg)
qed

text \<open>Claim C4, as stated, fails. On two debits of 1 (groceries) and 2 (shopping) the total
  debit amount is 3 and the essential debit sum is 1, but \<open>essential_spending_ratio\<close> is
  0.333, not 1/3: the ratios of the result are rounded to three decimals.\<close>

theorem behavioral_ratio_unrounded_counterexample:
  "example_thirds \<noteq> []
   \<and> nonneg_amounts example_thirds
   \<and> spec_total_debit example_thirds \<noteq> 0
   \<and> spec_essential_debit example_thirds / spec_total_debit example_thirds = 1 / 3
   \<and> map_option (essential_spending_ratio \<circ> behavioral_patterns \<circ> behavioral_analysis)
        (analyze_transactions example_now example_thirds) = Some (333 / 1000)
   \<and> map_option (essential_spending_ratio \<circ> behavioral_patterns \<circ> behavioral_analysis)
        (analyze_transactions example_now example_thirds)
      \<noteq> Some (spec_essential_debit example_thirds / spec_total_debit example_thirds)"
proof -
  obtain r where r: "analyze_transactions example_now example_thirds = Some r"
    and p: "behavioral_patterns (behavioral_analysis r) =
        \<lparr>essential_spending_ratio = py_round
           (if 0 < spec_total_debit example_thirds
            then spec_essential_debit example_thirds / spec_total_debit example_thirds else 0) 3,
         high_risk_spending_ratio = py_round
           (if 0 < spec_total_debit example_thirds
            then spec_high_risk_debit example_thirds / spec_total_debit example_thirds else 0) 3,
         weekend_spending_ratio = py_round
           (if 0 < spec_total_debit example_thirds
            then spec_weekend_debit example_thirds / spec_total_debit example_thirds else 0) 3\<rparr>"
    using analyze_transactions_spec [OF example_nonneg(3,4), of example_now] by blast
  have "essential_spending_ratio (behavioral_patterns (behavioral_analysis r)) = 333 / 1000"
    unfolding p by (simp add: example_thirds_spec py_round_examples)
  then show ?thesis using r by (simp add: example_nonneg example_thirds_spec)
qed

text \<open>Claim C4, amended. For every non-empty list of transactions with non-negative amounts: if
  the total debit amount is 0, the three ratios \<open>essential_spending_ratio\<close>,
  \<open>high_risk_spending_ratio\<close> and \<open>weekend_spending_ratio\<close> are 0; otherwise each equals the
  debit sum of its category set (or of the weekend rows) divided by the total debit amount,
  rounded to three decimals; and each lies in [0, 1].\<close>

theorem behavioral_ratios_rounded:
  assumes "transactions \<noteq> []" and "nonneg_amounts transactions"
  shows "\<exists>r. analyze_transactions now transactions = Some r
     \<and> (spec_total_debit transactions = 0 \<longrightarrow>
          essential_spending_ratio (behavioral_patterns (behavioral_analysis r)) = 0
          \<and> high_risk_spending_ratio (behavioral_patterns (behavioral_analysis r)) = 0
          \<and> weekend_spending_ratio (behavioral_patterns (behavioral_analysis r)) = 0)
     \<and> (spec_total_debit transactions \<noteq> 0 \<longrightarrow>
          essential_spending_ratio (behavioral_patterns (behavioral_analysis r))
            = py_round (spec_essential_debit transactions / spec_total_debit transactions) 3
          \<and> high_risk_spending_ratio (behavioral_patterns (behavioral_analysis r))
            = py_round (spec_high_risk_debit transactions / spec_total_debit transactions) 3
          \<and> weekend_spending_ratio (behavioral_patterns (behavioral_analysis r))
            = py_round (spec_weekend_debit transactions / spec_total_debit transactions) 3)
     \<and> 0 \<le> essential_spending_ratio (behavioral_patterns (behavioral_analysis r))
     \<and> essential_spending_ratio (behavioral_patterns (behavioral_analysis r)) \<le> 1
     \<and> 0 \<le> high_risk_spending_ratio (behavioral_patterns (behavioral_analysis r))
     \<and> high_risk_spending_ratio (behavioral_patterns (behavioral_analysis r)) \<le> 1
     \<and> 0 \<le> weekend_spending_ratio (behavioral_patterns (behavioral_analysis r))
     \<and> weekend_spending_ratio (behavioral_patterns (behavioral_analysis r)) \<le> 1"
proof -
  obtain r where r: "analyze_transactions now transactions = Some r"
    and ba: "calculate_behavioral_analysis (transactions_to_dataframe transactions)
               = Some (behavioral_analysis r)"
    and p: "behavioral_patterns (behavioral_analysis r) =
        \<lparr>essential_spending_ratio = py_round
           (if 0 < spec_total_debit transactions
            then spec_essential_debit transactions / spec_total_debit transactions else 0) 3,
         high_risk_spending_ratio = py_round
           (if 0 < spec_total_debit transactions
            then spec_high_risk_debit transactions / spec_total_debit transactions else 0) 3,
         weekend_spending_ratio = py_round
           (if 0 < spec_total_debit transactions
            then spec_weekend_debit transactions / spec_total_debit transactions else 0) 3\<rparr>"
    using analyze_transactions_spec [OF assms, of now] by blast
  note b = behavioral_patterns_bounds [OF assms ba]
  have T: "0 \<le> spec_total_debit transactions"
    by (rule spec_total_debit_nonneg [OF assms(2)])
  have zero: "spec_total_debit transactions = 0 \<Longrightarrow>
          essential_spending_ratio (behavioral_patterns (behavioral_analysis r)) = 0
          \<and> high_risk_spending_ratio (behavioral_patterns (behavioral_analysis r)) = 0
          \<and> weekend_spending_ratio (behavioral_patterns (behavioral_analysis r)) = 0"
    unfolding p by (simp add: py_round_0)
  have pos: "spec_total_debit transactions \<noteq> 0 \<Longrightarrow>
          essential_spending_ratio (behavioral_patterns (behavioral_analysis r))
            = py_round (spec_essential_debit transactions / spec_total_debit transactions) 3
          \<and> high_risk_spending_ratio (behavioral_patterns (behavioral_analysis r))
            = py_round (spec_high_risk_debit transactions / spec_total_debit transactions) 3
          \<and> weekend_spending_ratio (behavioral_patterns (behavioral_analysis r))
            = py_round (spec_weekend_debit transactions / spec_total_debit transactions) 3"
    unfolding p using T by simp
  show ?thesis using r zero pos b by blast
qed

theorem behavioral_ratios_rounded_witness:
  "example_thirds \<noteq> [] \<and> nonneg_amounts example_thirds
   \<and> spec_total_debit example_thirds \<noteq> 0
   \<and> map_option (behavioral_patterns \<circ> behavioral_analysis)
        (analyze_transactions example_now example_thirds)
      = Some \<lparr>essential_spending_ratio = 333 / 1000, high_risk_spending_ratio = 0,
              weekend_spending_ratio = 0\<rparr>
   \<and> example_two_months \<noteq> [] \<and> nonneg_amounts example_two_months
   \<and> spec_total_debit example_two_months = 0
   \<and> map_option (behavioral_patterns \<circ> behavioral_analysis)
        (analyze_transactions example_now example_two_months)
      = Some \<lparr>essential_spending_ratio = 0, high_risk_spending_ratio = 0,
              weekend_spending_ratio = 0\<rparr>"
proof -
  have eq: "p = \<lparr>essential_spending_ratio = essential_spending_ratio p,
      high_risk_spending_ratio = high_risk_spending_ratio p,
      weekend_spending_ratio = weekend_spending_ratio p\<rparr>" for p :: BehavioralPatterns
    by simp
  obtain r1 where r1: "analyze_transactions example_now example_thirds = Some r1"
    and v1: "essential_spending_ratio (behavioral_patterns (behavioral_analysis r1)) = 333 / 1000"
      "high_risk_spending_ratio (behavioral_patterns (behavioral_analysis r1)) = 0"
      "weekend_spending_ratio (behavioral_patterns (behavioral_analysis r1)) = 0"
    using behavioral_ratios_rounded [OF example_nonneg(3,4), of example_now]
    by (auto simp: example_thirds_spec py_round_examples py_round_0)
  obtain r2 where r2: "analyze_transactions example_now example_two_months = Some r2"
    and v2: "essential_spending_ratio (behavioral_patterns (behavioral_analysis r2)) = 0"
      "high_risk_spending_ratio (behavioral_patterns (behavioral_analysis r2)) = 0"
      "weekend_spending_ratio (behavioral_patterns (behavioral_analysis r2)) = 0"
    using behavioral_ratios_rounded [OF example_nonneg(7,8), of example_now]
    by (auto simp: example_two_months_spec)
  show ?thesis
    using eq [of "behavioral_patterns (behavioral_analysis r1)"]
      eq [of "behavioral_patterns (behavioral_analysis r2)"]
    by (simp add: r1 r2 v1 v2 example_nonneg example_thirds_spec example_two_months_spec)
qed

text \<open>Claim C5. For every non-empty list of transactions, the keys of \<open>monthly_savings\<close> are the
  months present in the data, and for each of them the value is
  \<open>max 0 (income - spending)\<close> of that month, hence never negative, also when the debits of
  the month exceed its credits.\<close>

theorem monthly_savings_clamped:
  assumes "transactions \<noteq> []" and "nonneg_amounts transactions"
  shows "\<exists>r. analyze_transactions now transactions = Some r
     \<and> map fst (monthly_savings (financial_summary r)) = spec_months transactions
     \<and> (\<forall>m\<in>set (spec_months transactions).
           map_of (monthly_savings (financial_summary r)) m
             = Some (max 0 (spec_income transactions m - spec_spending transactions m)))
     \<and> (\<forall>entry\<in>set (monthly_savings (financial_summary r)). 0 \<le> snd entry)"
proof -
  obtain r where r: "analyze_transactions now transactions = Some r"
    and ms: "monthly_savings (financial_summary r) =
          map (\<lambda>m. (m, max 0 (spec_income transactions m - spec_spending transactions m)))
            (spec_months transactions)"
    using analyze_transactions_spec [OF assms, of now] by force
  have keys: "map fst (monthly_savings (financial_summary r)) = spec_months transactions"
    unfolding ms by (simp add: comp_def)
  have vals: "\<forall>m\<in>set (spec_months transactions).
           map_of (monthly_savings (financial_summary r)) m
             = Some (max 0 (spec_income transactions m - spec_spending transactions m))"
    unfolding ms by (simp add: map_of_map_restrict)
  have nn: "\<forall>entry\<in>set (monthly_savings (financial_summary r)). 0 \<le> snd entry"
    unfolding ms by auto
  show ?thesis using r keys vals nn by blast
qed

theorem monthly_savings_clamped_witness:
  "example_overspend \<noteq> [] \<and> nonneg_amounts example_overspend
   \<and> spec_spending example_overspend ''2024-01'' > spec_income example_overspend ''2024-01''
   \<and> map_option (monthly_savings \<circ> financial_summary)
        (analyze_transactions example_now example_overspend) = Some [(''2024-01'', 0)]"
proof -
  have h: "example_overspend \<noteq> []" "nonneg_amounts example_overspend"
    by (simp_all add: example_overspend_def nonneg_amounts_def example_simps)
  obtain r where r: "analyze_transactions example_now example_overspend = Some r"
    and keys: "map fst (monthly_savings (financial_summary r)) = spec_months example_overspend"
    and vals: "\<forall>m\<in>set (spec_months example_overspend).
           map_of (monthly_savings (financial_summary r)) m
             = Some (max 0 (spec_income example_overspend m - spec_spending example_overspend m))"
    using monthly_savings_clamped [OF h, of example_now] by blast
  obtain v where v: "monthly_savings (financial_summary r) = [(''2024-01'', v)]"
    using keys by (auto simp: example_overspend_spec map_eq_Cons_conv)
  have "v = 0" using vals by (simp add: example_overspend_spec v)
  then show ?thesis using h r v by (simp add: example_overspend_spec)
qed

text \<open>Claim C6. For every non-empty list of transactions, when the total debit sum is positive
  the category distribution has one entry per lower-cased category of the debit rows, its
  value the debit sum of the category divided by the total debit sum, rounded to three
  decimals, and the values sum to 1 up to the rounding error (half a thousandth per entry);
  when the total debit sum is 0 the distribution is empty. Every value lies in [0, 1].\<close>

theorem category_distribution:
  assumes "transactions \<noteq> []" and "nonneg_amounts transactions"
  shows "\<exists>r. analyze_transactions now transactions = Some r
     \<and> (0 < spec_total_debit transactions \<longrightarrow>
          spending_pattern_distribution (behavioral_analysis r)
            = map (\<lambda>c. (c, py_round (spec_category_debit transactions c
                                       / spec_total_debit transactions) 3))
                (spec_debit_categories transactions)
          \<and> \<bar>sum_list (map snd (spending_pattern_distribution (behavioral_analysis r))) - 1\<bar>
              \<le> real (length (spending_pattern_distribution (behavioral_analysis r))) / 2000)
     \<and> (spec_total_debit transactions = 0 \<longrightarrow>
          spending_pattern_distribution (behavioral_analysis r) = [])
     \<and> (\<forall>entry\<in>set (spending_pattern_distribution (behavioral_analysis r)).
           0 \<le> snd entry \<and> snd entry \<le> 1)"
proof -
  obtain r where r: "analyze_transactions now transactions = Some r"
    and d: "spending_pattern_distribution (behavioral_analysis r) =
        (if 0 < spec_total_debit transactions
         then map (\<lambda>c. (c, py_round (spec_category_debit transactions c
                                      / spec_total_debit transactions) 3))
                (spec_debit_categories transactions)
         else [])"
    using analyze_transactions_spec [OF assms, of now] by blast
  have pos: "0 < spec_total_debit transactions \<Longrightarrow>
          spending_pattern_distribution (behavioral_analysis r)
            = map (\<lambda>c. (c, py_round (spec_category_debit transactions c
                                       / spec_total_debit transactions) 3))
                (spec_debit_categories transactions)
          \<and> \<bar>sum_list (map snd (spending_pattern_distribution (behavioral_analysis r))) - 1\<bar>
              \<le> real (length (spending_pattern_distribution (behavioral_analysis r))) / 2000"
    unfolding d using spec_fractions_sum [of transactions] by (simp add: comp_def)
  have zero: "spec_total_debit transactions = 0 \<Longrightarrow>
          spending_pattern_distribution (behavioral_analysis r) = []"
    unfolding d by simp
  have range: "\<forall>entry\<in>set (spending_pattern_distribution (behavioral_analysis r)).
           0 \<le> snd entry \<and> snd entry \<le> 1"
    unfolding d using spec_fraction_bounds [OF assms(2)] by auto
  show ?thesis using r pos zero range by blast
qed

theorem category_distribution_witness:
  "example_thirds \<noteq> [] \<and> nonneg_amounts example_thirds
   \<and> 0 < spec_total_debit example_thirds
   \<and> map_option (spending_pattern_distribution \<circ> behavioral_analysis)
        (analyze_transactions example_now example_thirds)
      = Some [(''groceries'', 333 / 1000), (''shopping'', 667 / 1000)]
   \<and> example_two_months \<noteq> [] \<and> nonneg_amounts example_two_months
   \<and> spec_total_debit example_two_months = 0
   \<and> map_option (spending_pattern_distribution \<circ> behavioral_analysis)
        (analyze_transactions example_now example_two_months) = Some []"
proof -
  obtain r1 where r1: "analyze_transactions example_now example_thirds = Some r1"
    and v1: "spending_pattern_distribution (behavioral_analysis r1)
      = [(''groceries'', 333 / 1000), (''shopping'', 667 / 1000)]"
    using category_distribution [OF example_nonneg(3,4), of example_now]
    by (auto simp: example_thirds_spec py_round_examples)
  obtain r2 where r2: "analyze_transactions example_now example_two_months = Some r2"
    and v2: "spending_pattern_distribution (behavioral_analysis r2) = []"
    using category_distribution [OF example_nonneg(7,8), of example_now]
    by (auto simp: example_two_months_spec)
  show ?thesis
    by (simp add: r1 r2 v1 v2 example_nonneg example_thirds_spec example_two_months_spec)
qed

text \<open>Claim C7. For every non-empty list of transactions, the list of monthly incomes has one
  entry per month of the data (0 for a month without credit), and the factor
  ``Stable income'' is in \<open>loan_eligibility_factors\<close> if and only if that list has at least
  two entries and its standard deviation divided by its mean plus \<open>1e-6\<close> is below 0.3. The
  factors are exactly the single entry ``Standard risk profile'' if and only if none of the
  four conditions holds: essential ratio above 0.5, high-risk ratio below 0.15, stability
  High or Medium, stable income.\<close>

theorem stable_income_factor:
  assumes "transactions \<noteq> []" and "nonneg_amounts transactions"
  shows "\<exists>r. analyze_transactions now transactions = Some r
     \<and> map (\<lambda>item. income (snd item)) (income_and_spending_analysis (behavioral_analysis r))
         = spec_monthly_incomes transactions
     \<and> (''Stable income'' \<in> set (loan_eligibility_factors (risk_assessment_details r))
          \<longleftrightarrow> 2 \<le> length (spec_monthly_incomes transactions)
              \<and> std_value (spec_monthly_incomes transactions)
                  / (mean_value (spec_monthly_incomes transactions) + eps) < 0.3)
     \<and> (loan_eligibility_factors (risk_assessment_details r) = [''Standard risk profile'']
          \<longleftrightarrow> \<not> 0.5 < essential_spending_ratio (behavioral_patterns (behavioral_analysis r))
              \<and> \<not> high_risk_spending_ratio (behavioral_patterns (behavioral_analysis r)) < 0.15
              \<and> spending_stability (behavioral_analysis r) = STABILITY_LOW
              \<and> \<not> (2 \<le> length (spec_monthly_incomes transactions)
                    \<and> std_value (spec_monthly_incomes transactions)
                        / (mean_value (spec_monthly_incomes transactions) + eps) < 0.3))"
proof -
  obtain r where r: "analyze_transactions now transactions = Some r"
    and isa: "income_and_spending_analysis (behavioral_analysis r) =
        map (\<lambda>m. (m, \<lparr>income = spec_income transactions m, spending = spec_spending transactions m,
                      savings_rate = (spec_income transactions m - spec_spending transactions m)
                                     / (spec_income transactions m + eps)\<rparr>))
          (spec_months transactions)"
    and ra: "calculate_risk_assessment (transactions_to_dataframe transactions)
               (behavioral_analysis r) = Some (risk_assessment_details r)"
    using analyze_transactions_spec [OF assms, of now] by blast
  have mi: "map (\<lambda>item. income (snd item)) (income_and_spending_analysis (behavioral_analysis r))
      = spec_monthly_incomes transactions"
    unfolding isa spec_monthly_incomes_def by (simp add: comp_def)
  have len: "length (income_and_spending_analysis (behavioral_analysis r))
      = length (spec_monthly_incomes transactions)"
    unfolding isa spec_monthly_incomes_def by simp
  have inc: "\<forall>item\<in>set (income_and_spending_analysis (behavioral_analysis r)).
      0 \<le> income (snd item)"
    unfolding isa using spec_income_nonneg [OF assms(2)] by auto
  define S where "S \<longleftrightarrow> 2 \<le> length (spec_monthly_incomes transactions)
              \<and> std_value (spec_monthly_incomes transactions)
                  / (mean_value (spec_monthly_incomes transactions) + eps) < 0.3"
  have cond: "(1 < length (spec_monthly_incomes transactions)
      \<and> cv_value (spec_monthly_incomes transactions) < 0.3) = S"
    unfolding S_def cv_value_def by auto
  note closed = calculate_risk_assessment_Some [OF inc,
      of "transactions_to_dataframe transactions", unfolded ra option.inject mi len cond]
  have stab: "spending_stability (behavioral_analysis r) \<in> set [STABILITY_HIGH, STABILITY_MEDIUM]
      \<longleftrightarrow> spending_stability (behavioral_analysis r) \<noteq> STABILITY_LOW"
    by (cases "spending_stability (behavioral_analysis r)") auto
  have stable: "''Stable income'' \<in> set (loan_eligibility_factors (risk_assessment_details r))
          \<longleftrightarrow> S"
    by (subst closed) auto
  have fallback: "loan_eligibility_factors (risk_assessment_details r) = [''Standard risk profile'']
          \<longleftrightarrow> \<not> 0.5 < essential_spending_ratio (behavioral_patterns (behavioral_analysis r))
              \<and> \<not> high_risk_spending_ratio (behavioral_patterns (behavioral_analysis r)) < 0.15
              \<and> spending_stability (behavioral_analysis r) = STABILITY_LOW
              \<and> \<not> S"
    by (subst closed) (cases "spending_stability (behavioral_analysis r)", auto)
  show ?thesis using r mi stable fallback unfolding S_def by blast
qed

theorem stable_income_factor_witness:
  "example_two_months \<noteq> [] \<and> nonneg_amounts example_two_months
   \<and> spec_monthly_incomes example_two_months = [3, 5]
   \<and> std_value [3, 5] / (mean_value [3, 5] + eps) < 0.3
   \<and> (\<exists>r. analyze_transactions example_now example_two_months = Some r
        \<and> ''Stable income'' \<in> set (loan_eligibility_factors (risk_assessment_details r)))
   \<and> example_fallback \<noteq> [] \<and> nonneg_amounts example_fallback
   \<and> spec_monthly_incomes example_fallback = [1, 3]
   \<and> \<not> std_value [1, 3] / (mean_value [1, 3] + eps) < 0.3
   \<and> map_option (loan_eligibility_factors \<circ> risk_assessment_details)
        (analyze_transactions example_now example_fallback) = Some [''Standard risk profile'']"
proof -
  have mi1: "spec_monthly_incomes example_two_months = [3, 5]"
    by (simp add: spec_monthly_incomes_def example_two_months_spec)
  have cv1: "std_value [3, 5] / (mean_value [3, 5] + eps) < 0.3"
    by (simp add: std_value_pair mean_value_pair eps_def)
  have first: "\<exists>r. analyze_transactions example_now example_two_months = Some r
        \<and> ''Stable income'' \<in> set (loan_eligibility_factors (risk_assessment_details r))"
    using stable_income_factor [OF example_nonneg(7,8), of example_now] cv1
    by (auto simp: mi1)
  have mi2: "spec_monthly_incomes example_fallback = [1, 3]"
    by (simp add: spec_monthly_incomes_def example_fallback_spec)
  have cv2: "\<not> std_value [1, 3] / (mean_value [1, 3] + eps) < 0.3"
    by (simp add: std_value_pair mean_value_pair eps_def)
  have low: "spec_stability_of [1, 3] = STABILITY_LOW"
    by (simp add: spec_stability_of_def cv_value_def std_value_pair mean_value_pair eps_def)
  obtain r where r: "analyze_transactions example_now example_fallback = Some r"
    and ba: "calculate_behavioral_analysis (transactions_to_dataframe example_fallback)
               = Some (behavioral_analysis r)"
    and p: "behavioral_patterns (behavioral_analysis r) =
        \<lparr>essential_spending_ratio = py_round
           (if 0 < spec_total_debit example_fallback
            then spec_essential_debit example_fallback / spec_total_debit example_fallback else 0) 3,
         high_risk_spending_ratio = py_round
           (if 0 < spec_total_debit example_fallback
            then spec_high_risk_debit example_fallback / spec_total_debit example_fallback else 0) 3,
         weekend_spending_ratio = py_round
           (if 0 < spec_total_debit example_fallback
            then spec_weekend_debit example_fallback / spec_total_debit example_fallback else 0) 3\<rparr>"
    using analyze_transactions_spec [OF example_fallback_spec(1,2), of example_now] by blast
  have e: "essential_spending_ratio (behavioral_patterns (behavioral_analysis r)) = 0"
    and h: "high_risk_spending_ratio (behavioral_patterns (behavioral_analysis r)) = 1"
    unfolding p by (simp_all add: example_fallback_spec py_round_0 py_round_unit)
  have st: "spending_stability (behavioral_analysis r) = STABILITY_LOW"
    unfolding spending_stability_spec [OF example_fallback_spec(2) ba]
    by (simp add: spec_stability_def example_fallback_spec low)
  have "loan_eligibility_factors (risk_assessment_details r) = [''Standard risk profile'']"
    using stable_income_factor [OF example_fallback_spec(1,2), of example_now] cv2
    by (auto simp: r mi2 e h st)
  then show ?thesis
    using first cv1 cv2 by (simp add: r mi1 mi2 example_nonneg example_fallback_spec)
qed




text \<open>Claim C10. On the empty list the risk details hold \<open>risk_essential_spending = 50\<close>,
  while \<open>high_risk_spending\<close> and \<open>weekend_spending\<close> are 0.\<close>

theorem empty_input_risk_details:
  "\<exists>r. analyze_transactions now [] = Some r
     \<and> risk_essential_spending (risk_assessment_details r) = 50
     \<and> high_risk_spending (risk_assessment_details r) = 0
     \<and> weekend_spending (risk_assessment_details r) = 0"
  by (simp add: analyze_transactions_def generate_empty_result_def)

end
